theory Spec2Isabelle
  imports Complex_Main "HOL-Library.Word" "HOL-Library.Log_Nat"
begin

section \<open>JavaScript and Node.js values used by the two programs\<close>

text \<open>
  A Node \<open>Buffer\<close> is a list of bytes. A JavaScript string is a list of UTF-16 code
  units: \<open>length\<close> and \<open>slice\<close> of the source count code units. \<open>None\<close> of an
  option stands for \<open>undefined\<close>.
\<close>

type_synonym byte = "8 word"
type_synonym buffer = "byte list"
type_synonym jschar = "16 word"
type_synonym jsstring = "jschar list"
type_synonym path = jsstring

text \<open>A string literal of the source (ASCII) as a JavaScript string.\<close>

definition js :: "string \<Rightarrow> jsstring" where
  "js s = map of_char s"

text \<open>Truthiness of a value that is a string or \<open>undefined\<close>, and \<open>v || d\<close>.\<close>

definition truthy :: "jsstring option \<Rightarrow> bool" where
  "truthy v = (case v of None \<Rightarrow> False | Some s \<Rightarrow> s \<noteq> [])"

definition or_else :: "jsstring option \<Rightarrow> jsstring \<Rightarrow> jsstring" where
  "or_else v d = (case v of None \<Rightarrow> d | Some s \<Rightarrow> if s = [] then d else s)"

text \<open>
  The code units that \<open>String.prototype.trim\<close> and \<open>parseFloat\<close> skip: ECMAScript's
  WhiteSpace and LineTerminator.
\<close>

definition is_white_space :: "jschar \<Rightarrow> bool" where
  "is_white_space c =
     (c \<in> set [0x09, 0x0A, 0x0B, 0x0C, 0x0D, 0x20, 0xA0, 0x1680,
               0x2028, 0x2029, 0x202F, 0x205F, 0x3000, 0xFEFF]
      \<or> (0x2000 \<le> c \<and> c \<le> 0x200A))"

definition trim :: "jsstring \<Rightarrow> jsstring" where
  "trim s = rev (dropWhile is_white_space (rev (dropWhile is_white_space s)))"

text \<open>\<open>s.slice(a, b)\<close> for \<open>0 \<le> a\<close>, \<open>0 \<le> b\<close>: both ends are clamped to the length.\<close>

definition String_slice :: "jsstring \<Rightarrow> nat \<Rightarrow> nat \<Rightarrow> jsstring" where
  "String_slice s a b = drop a (take b s)"

text \<open>\<open>buffer.slice(start)\<close> for \<open>0 \<le> start\<close>: a start beyond the end gives the empty buffer.\<close>

definition Buffer_slice :: "buffer \<Rightarrow> nat \<Rightarrow> buffer" where
  "Buffer_slice b start = drop start b"

definition Buffer_alloc :: "nat \<Rightarrow> buffer" where
  "Buffer_alloc n = replicate n 0"

definition Buffer_concat :: "buffer list \<Rightarrow> buffer" where
  "Buffer_concat bs = concat bs"

text \<open>
  A JavaScript number, an IEEE 754 double: not a number, an infinity (\<open>True\<close> for the
  negative one), minus zero, or \<open>Finite q\<close> for the double whose value is the rational
  \<open>q\<close> (plus zero is \<open>Finite 0\<close>).
\<close>

datatype jsnum = NaN | Infinity bool | NegZero | Finite rat

text \<open>
  The Number value for a mathematical value: the nearest double, the one with an even
  significand when two are equally near. \<open>to_double neg a\<close> rounds the magnitude
  \<open>a \<ge> 0\<close> with the sign \<open>neg\<close>. In units of the least positive double,
  \<open>2^-1074\<close>, the doubles are the integers \<open>m * 2^k\<close> with \<open>m < 2^53\<close>: below
  \<open>2^53\<close> units they are one unit apart, and a magnitude of \<open>b > 53\<close> bits lies among
  doubles \<open>2^(b - 53)\<close> units apart (the subtraction on natural numbers gives 0 for
  \<open>b \<le> 53\<close>). What rounds to \<open>2^1024\<close> or more is an infinity, what rounds to
  nothing a zero.
\<close>

definition round_half_even :: "rat \<Rightarrow> int" where
  "round_half_even x =
     (let f = \<lfloor>x\<rfloor>; d = x - of_int f
      in if d < 1 / 2 then f else if 1 / 2 < d then f + 1 else if even f then f else f + 1)"

definition denorm_exp :: nat where
  "denorm_exp = 1074"

definition to_double :: "bool \<Rightarrow> rat \<Rightarrow> jsnum" where
  "to_double neg a =
     (let t = a * 2 ^ denorm_exp;
          k = nat (bitlen \<lfloor>t\<rfloor>) - 53;
          n = round_half_even (t / 2 ^ k) * 2 ^ k
      in if 2 ^ (1024 + denorm_exp) \<le> n then Infinity neg
         else if n = 0 then (if neg then NegZero else Finite 0)
         else Finite ((if neg then - 1 else 1) * of_int n / 2 ^ denorm_exp))"

definition is_digit :: "jschar \<Rightarrow> bool" where
  "is_digit c = (0x30 \<le> c \<and> c \<le> 0x39)"

definition digits_value :: "jsstring \<Rightarrow> nat" where
  "digits_value ds = foldl (\<lambda>n c. 10 * n + (unat c - 48)) 0 ds"

definition strip_sign :: "jsstring \<Rightarrow> bool \<times> jsstring" where
  "strip_sign s =
     (case s of
        [] \<Rightarrow> (False, s)
      | c # r \<Rightarrow> if c = 0x2D then (True, r) else if c = 0x2B then (False, r) else (False, s))"

definition exponent_part :: "jsstring \<Rightarrow> int" where
  "exponent_part s =
     (case s of
        [] \<Rightarrow> 0
      | c # r \<Rightarrow>
          if c = 0x65 \<or> c = 0x45 then
            (let (neg, r') = strip_sign r; ds = takeWhile is_digit r'
             in if ds = [] then 0
                else if neg then - int (digits_value ds) else int (digits_value ds))
          else 0)"

text \<open>
  ECMAScript's \<open>parseFloat\<close>: skip leading white space, take the longest prefix that is
  a StrDecimalLiteral (sign, \<open>Infinity\<close> or digits with an optional fraction and an
  optional exponent), \<open>NaN\<close> when there is none; the result is the double nearest to
  the decimal value of that prefix.
\<close>

definition parseFloat :: "jsstring \<Rightarrow> jsnum" where
  "parseFloat s =
     (let (neg, r) = strip_sign (dropWhile is_white_space s) in
      if take 8 r = js ''Infinity'' then Infinity neg
      else
        let ip = takeWhile is_digit r;
            r1 = dropWhile is_digit r;
            fp = (case r1 of [] \<Rightarrow> [] | c # r' \<Rightarrow> if c = 0x2E then takeWhile is_digit r' else []);
            r2 = (case r1 of [] \<Rightarrow> r1 | c # r' \<Rightarrow> if c = 0x2E then dropWhile is_digit r' else r1)
        in if ip = [] \<and> fp = [] then NaN
           else
             let e = exponent_part r2 - int (length fp);
                 m = of_nat (digits_value (ip @ fp));
                 v = (if 0 \<le> e then m * 10 ^ nat e else m / 10 ^ nat (- e))
             in to_double neg v)"

section \<open>The process and its surroundings\<close>

datatype js_error =
    ERR_OUT_OF_RANGE       \<comment> \<open>the RangeError of \<open>writeUInt32LE\<close>, \<open>writeUInt16LE\<close>, \<open>fs.writeSync\<close>\<close>
  | ENOSPC                 \<comment> \<open>a write that the volume cannot take\<close>
  | Rejected jsstring      \<comment> \<open>a rejected provider request\<close>

text \<open>The lines that the programs print, by the statement that prints them.\<close>

datatype message =
    MSG_OPENAI_KEY_MISSING           \<comment> \<open>\<open>ERROR: OPENAI_API_KEY missing in .env\<close>\<close>
  | MSG_GEMINI_KEY_MISSING           \<comment> \<open>\<open>ERROR: GEMINI_API_KEY missing in .env\<close>\<close>
  | MSG_USAGE_TTS                    \<comment> \<open>\<open>Usage: node src/tts.js <input.txt> <output.wav>\<close>\<close>
  | MSG_USAGE_GEMINI                 \<comment> \<open>\<open>Usage: node src/tts-gemini.js <input.txt> <output.wav>\<close>\<close>
  | MSG_NOT_FOUND path               \<comment> \<open>\<open>ERROR: input file not found\<close> and the resolved path\<close>
  | MSG_EMPTY                        \<comment> \<open>\<open>ERROR: input file is empty\<close>\<close>
  | MSG_TTS_FAILED js_error          \<comment> \<open>\<open>TTS generation failed:\<close> and the error\<close>
  | MSG_GENERATION_FAILED js_error   \<comment> \<open>\<open>Generation failed:\<close> and the error\<close>
  | MSG_NO_AUDIO                     \<comment> \<open>\<open>ERROR: no audio returned - check model & voice names\<close>\<close>
  | MSG_CHUNK nat nat                \<comment> \<open>\<open>(TTS) chunk i/n\<close>\<close>
  | MSG_SUCCESS path                 \<comment> \<open>\<open>Success\<close> and the output path\<close>
  | MSG_MODEL jsstring "(jsstring \<times> jsnum) option"
                                     \<comment> \<open>\<open>Model :\<close> with voice and speed for a \<open>tts\<close> model\<close>
  | MSG_GENERATING jsstring jsstring \<comment> \<open>\<open>Generating TTS\<close> with model and voice\<close>
  | MSG_SAVED path                   \<comment> \<open>\<open>Saved\<close> and the output path\<close>

text \<open>
  What a run can change and what can be seen of it afterwards: the regular files on
  disk, the two output streams, the requests sent to the provider (in order) and the
  exit code (\<open>None\<close> while the process runs). Directories are not tracked, so
  \<open>fs.mkdirSync\<close> changes nothing here.
\<close>

record 'r world =
  files :: "path \<rightharpoonup> buffer"
  stdout :: "message list"
  stderr :: "message list"
  requests :: "'r list"
  exit_code :: "nat option"

text \<open>
  What a run is given: \<open>process.env\<close> after dotenv's \<open>config()\<close>, \<open>process.argv\<close>,
  \<open>path.resolve\<close> for the current directory, and the UTF-8 decoder of
  \<open>fs.readFileSync(p, "utf8")\<close>.
\<close>

record node_env =
  process_env :: "jsstring \<rightharpoonup> jsstring"
  argv :: "jsstring list"
  resolve :: "jsstring \<Rightarrow> path"
  utf8 :: "buffer \<Rightarrow> jsstring"

definition argv_at :: "'a node_env_scheme \<Rightarrow> nat \<Rightarrow> jsstring option" where
  "argv_at env i = (if i < length (argv env) then Some (argv env ! i) else None)"

definition console_log :: "message \<Rightarrow> 'r world \<Rightarrow> 'r world" where
  "console_log m w = w\<lparr>stdout := stdout w @ [m]\<rparr>"

definition console_error :: "message \<Rightarrow> 'r world \<Rightarrow> 'r world" where
  "console_error m w = w\<lparr>stderr := stderr w @ [m]\<rparr>"

definition process_exit :: "nat \<Rightarrow> 'r world \<Rightarrow> 'r world" where
  "process_exit c w = w\<lparr>exit_code := Some c\<rparr>"

definition existsSync :: "path \<Rightarrow> 'r world \<Rightarrow> bool" where
  "existsSync p w = (files w p \<noteq> None)"

definition unlinkSync :: "path \<Rightarrow> 'r world \<Rightarrow> 'r world" where
  "unlinkSync p w = w\<lparr>files := (files w)(p := None)\<rparr>"

section \<open>src/tts.js\<close>

text \<open>
  \<open>fs.createWriteStream(p)\<close> opens \<open>p\<close> with flag \<open>w\<close>: the file is created, or
  emptied when it exists. \<open>out.write(data)\<close> appends to it. The stream opens and writes
  in the background; here both take effect at the call, and a write error of the
  stream (an event, not an exception) is outside the model: \<open>tts_main\<close> below describes
  the runs in which every write of the stream succeeds.
\<close>

definition createWriteStream :: "path \<Rightarrow> 'r world \<Rightarrow> 'r world" where
  "createWriteStream p w = w\<lparr>files := (files w)(p \<mapsto> [])\<rparr>"

definition stream_write :: "path \<Rightarrow> buffer \<Rightarrow> 'r world \<Rightarrow> 'r world" where
  "stream_write p data w =
     w\<lparr>files := (files w)(p \<mapsto> (case files w p of None \<Rightarrow> data | Some old \<Rightarrow> old @ data))\<rparr>"

record speech_params =
  model :: jsstring
  input :: jsstring
  format :: jsstring
  voice :: "jsstring option"
  speed :: "jsnum option"
  instructions :: "jsstring option"

text \<open>
  \<open>speech_create env i params\<close> is the outcome of the \<open>i\<close>-th call (from 0) of
  \<open>client.audio.speech.create(params)\<close> followed by \<open>response.arrayBuffer()\<close>: the
  bytes of the response, or the error thrown by either.
\<close>

record tts_env = node_env +
  speech_create :: "nat \<Rightarrow> speech_params \<Rightarrow> js_error + buffer"

definition tts_MODEL :: "'a node_env_scheme \<Rightarrow> jsstring" where
  "tts_MODEL env = or_else (process_env env (js ''TTS_MODEL'')) (js ''tts-1-hd'')"

definition tts_VOICE :: "'a node_env_scheme \<Rightarrow> jsstring" where
  "tts_VOICE env = or_else (process_env env (js ''TTS_VOICE'')) (js ''fable'')"

definition tts_SPEED :: "'a node_env_scheme \<Rightarrow> jsnum" where
  "tts_SPEED env = parseFloat (or_else (process_env env (js ''TTS_SPEED'')) (js ''1.0''))"

definition tts_INSTR :: "'a node_env_scheme \<Rightarrow> jsstring" where
  "tts_INSTR env =
     or_else (process_env env (js ''TTS_INSTR'')) (js ''Calm, slightly dramatic storyteller.'')"

definition HEADER_BYTES :: nat where
  "HEADER_BYTES = 44"

definition CHUNK_LEN :: nat where
  "CHUNK_LEN = 8000"

text \<open>The loop of lines 60 to 63: \<open>i\<close> is the loop variable, \<open>chunks\<close> the array so far.\<close>

function chunk_loop :: "jsstring \<Rightarrow> nat \<Rightarrow> jsstring list \<Rightarrow> jsstring list" where
  "chunk_loop text i chunks =
     (if i < length text
      then chunk_loop text (i + CHUNK_LEN) (chunks @ [String_slice text i (i + CHUNK_LEN)])
      else chunks)"
  by pat_completeness auto
termination
  by (relation "measure (\<lambda>(text, i, chunks). length text - i)") (auto simp: CHUNK_LEN_def)

declare chunk_loop.simps [simp del]

text \<open>The request object of lines 74 to 83.\<close>

definition tts_params :: "'a node_env_scheme \<Rightarrow> jsstring \<Rightarrow> speech_params" where
  "tts_params env chunk =
     (if tts_MODEL env = js ''gpt-4o-mini-tts''
      then \<lparr>model = tts_MODEL env, input = chunk, format = js ''wav'',
            voice = None, speed = None, instructions = Some (tts_INSTR env)\<rparr>
      else \<lparr>model = tts_MODEL env, input = chunk, format = js ''wav'',
            voice = Some (tts_VOICE env), speed = Some (tts_SPEED env), instructions = None\<rparr>)"

text \<open>
  The loop of lines 70 to 94. The result is the error that left the loop, if any, and
  the world at that moment.
\<close>

function tts_loop ::
  "tts_env \<Rightarrow> path \<Rightarrow> jsstring list \<Rightarrow> nat \<Rightarrow> speech_params world
     \<Rightarrow> js_error option \<times> speech_params world" where
  "tts_loop env absOut chunks i w =
     (if i < length chunks then
        (let chunk = chunks ! i;
             w1 = console_log (MSG_CHUNK (i + 1) (length chunks)) w;
             params = tts_params env chunk;
             w2 = w1\<lparr>requests := requests w1 @ [params]\<rparr>
         in case speech_create env i params of
              Inl err \<Rightarrow> (Some err, w2)
            | Inr buffer \<Rightarrow>
                tts_loop env absOut chunks (i + 1)
                  (if i = 0 then stream_write absOut buffer w2
                   else stream_write absOut (Buffer_slice buffer HEADER_BYTES) w2))
      else (None, w))"
  by pat_completeness auto
termination
  by (relation "measure (\<lambda>(env, absOut, chunks, i, w). length chunks - i)") auto

declare tts_loop.simps [simp del]

text \<open>
  Lines 33 to 55 of \<open>main\<close>: the checks before the synthesis. The result is the
  world in which \<open>process.exit(1)\<close> ended the run, or the resolved output path and
  the trimmed text. \<open>fs.existsSync\<close> and \<open>fs.readFileSync\<close> of the input see the
  same file, so they are one case distinction.
\<close>

definition tts_validate :: "'a node_env_scheme \<Rightarrow> 'r world \<Rightarrow> 'r world + path \<times> jsstring" where
  "tts_validate env w =
     (let inFile = argv_at env 2; outFile = argv_at env 3 in
      if \<not> truthy (process_env env (js ''OPENAI_API_KEY'')) then
        Inl (process_exit 1 (console_error MSG_OPENAI_KEY_MISSING w))
      else if \<not> truthy inFile \<or> \<not> truthy outFile then
        Inl (process_exit 1 (console_error MSG_USAGE_TTS w))
      else
        let absIn = resolve env (the inFile); absOut = resolve env (the outFile) in
        case files w absIn of
          None \<Rightarrow> Inl (process_exit 1 (console_error (MSG_NOT_FOUND absIn) w))
        | Some content \<Rightarrow>
            let text = trim (utf8 env content) in
            if text = [] then Inl (process_exit 1 (console_error MSG_EMPTY w))
            else Inr (absOut, text))"

text \<open>
  \<open>main\<close>: the checks, then lines 57 to 108. \<open>process.exit\<close> ends the run where it
  is called, so the \<open>finally\<close> block is not run after the \<open>catch\<close> block; a run that
  reaches the end of \<open>main\<close> ends with code 0.
\<close>

definition tts_main :: "tts_env \<Rightarrow> speech_params world \<Rightarrow> speech_params world" where
  "tts_main env w =
     (case tts_validate env w of
        Inl w' \<Rightarrow> w'
      | Inr (absOut, text) \<Rightarrow>
          let chunks = chunk_loop text 0 [];
              out = createWriteStream absOut w
          in (case tts_loop env absOut chunks 0 out of
                (Some err, w1) \<Rightarrow>
                  let w2 = console_error (MSG_TTS_FAILED err) w1;
                      w3 = (if existsSync absOut w2 then unlinkSync absOut w2 else w2)
                  in process_exit 1 w3
              | (None, w1) \<Rightarrow>
                  process_exit 0
                    (console_log
                       (MSG_MODEL (tts_MODEL env)
                          (if take 3 (tts_MODEL env) = js ''tts''
                           then Some (tts_VOICE env, tts_SPEED env) else None))
                       (console_log (MSG_SUCCESS absOut) w1))))"

section \<open>src/tts-gemini.js\<close>

record gemini_request =
  gen_model :: jsstring
  contents_text :: jsstring
  voiceName :: jsstring

text \<open>
  \<open>generateContent env request\<close> is the outcome of \<open>ai.models.generateContent\<close>: the
  error it throws, or the value of
  \<open>response?.candidates?.[0]?.content?.parts?.[0]?.inlineData?.data\<close> (a string or
  \<open>undefined\<close>). \<open>base64 env s\<close> is \<open>Buffer.from(s, "base64")\<close>. \<open>disk_free env\<close> is the
  number of bytes that the volume of the output file can still take, \<open>None\<close> when
  that is no limit.
\<close>

record gemini_env = node_env +
  generateContent :: "gemini_request \<Rightarrow> js_error + jsstring option"
  base64 :: "jsstring \<Rightarrow> buffer"
  disk_free :: "nat option"

text \<open>
  A string has at most \<open>MAX_STRING_LENGTH\<close> code units (V8's limit,
  \<open>buffer.constants.MAX_STRING_LENGTH\<close>), and base64 gives at most three bytes for four
  characters, so the payload that the program decodes from the string of the response
  has at most \<open>MAX_PAYLOAD\<close> bytes.
\<close>

definition MAX_STRING_LENGTH :: nat where
  "MAX_STRING_LENGTH = 2 ^ 29 - 24"

definition MAX_PAYLOAD :: nat where
  "MAX_PAYLOAD = 3 * MAX_STRING_LENGTH div 4"

definition gemini_MODEL :: "'a node_env_scheme \<Rightarrow> jsstring" where
  "gemini_MODEL env =
     or_else (process_env env (js ''GEMINI_TTS_MODEL'')) (js ''gemini-2.5-flash-preview-tts'')"

definition gemini_VOICE :: "'a node_env_scheme \<Rightarrow> jsstring" where
  "gemini_VOICE env = or_else (process_env env (js ''GEMINI_VOICE'')) (js ''Iapetus'')"

definition gemini_STYLE :: "'a node_env_scheme \<Rightarrow> jsstring" where
  "gemini_STYLE env =
     or_else (process_env env (js ''GEMINI_STYLE''))
       (js ''Neutral storyteller with a mild British accent and a very slight dramatic tone'')"

text \<open>Sequencing of steps that may throw.\<close>

definition then_do :: "js_error + 'a \<Rightarrow> ('a \<Rightarrow> js_error + 'b) \<Rightarrow> js_error + 'b" where
  "then_do r f = (case r of Inl err \<Rightarrow> Inl err | Inr x \<Rightarrow> f x)"

text \<open>Writing \<open>data\<close> into a buffer at an offset; what does not fit is dropped.\<close>

definition buffer_put :: "buffer \<Rightarrow> nat \<Rightarrow> buffer \<Rightarrow> buffer" where
  "buffer_put buf off data =
     (let d = take (length buf - off) data
      in take off buf @ d @ drop (off + length d) buf)"

text \<open>\<open>buf.write(s, offset, length, "ascii")\<close>.\<close>

definition buffer_write :: "string \<Rightarrow> nat \<Rightarrow> nat \<Rightarrow> buffer \<Rightarrow> js_error + buffer" where
  "buffer_write s off len buf = Inr (buffer_put buf off (map of_char (take len s)))"

text \<open>
  \<open>buf.writeUInt32LE(value, offset)\<close> and \<open>buf.writeUInt16LE(value, offset)\<close>: Node
  throws a RangeError when the value does not fit the field or the field does not fit
  the buffer; otherwise the bytes of the value are stored, lowest first.
\<close>

definition writeUInt32LE :: "nat \<Rightarrow> nat \<Rightarrow> buffer \<Rightarrow> js_error + buffer" where
  "writeUInt32LE v off buf =
     (if v < 2 ^ 32 \<and> off + 4 \<le> length buf
      then Inr (buffer_put buf off
                  [of_nat v, of_nat (v div 2 ^ 8), of_nat (v div 2 ^ 16), of_nat (v div 2 ^ 24)])
      else Inl ERR_OUT_OF_RANGE)"

definition writeUInt16LE :: "nat \<Rightarrow> nat \<Rightarrow> buffer \<Rightarrow> js_error + buffer" where
  "writeUInt16LE v off buf =
     (if v < 2 ^ 16 \<and> off + 2 \<le> length buf
      then Inr (buffer_put buf off [of_nat v, of_nat (v div 2 ^ 8)])
      else Inl ERR_OUT_OF_RANGE)"

text \<open>
  \<open>fs.writeFileSync(p, data)\<close> opens \<open>p\<close> with flag \<open>w\<close> (the file is created, or
  emptied when it exists), writes with \<open>fs.writeSync\<close> and closes. \<open>fs.writeSync\<close>
  throws a RangeError for a length above \<open>2^31 - 1\<close>, before it writes anything. When
  the volume cannot take all of \<open>data\<close> the write throws, and what was written stays
  on disk.
\<close>

definition kIoMaxLength :: nat where
  "kIoMaxLength = 2 ^ 31 - 1"

definition writeFileSync ::
  "gemini_env \<Rightarrow> path \<Rightarrow> buffer \<Rightarrow> 'r world \<Rightarrow> js_error option \<times> 'r world" where
  "writeFileSync env p data w =
     (if kIoMaxLength < length data then
        (Some ERR_OUT_OF_RANGE, w\<lparr>files := (files w)(p \<mapsto> [])\<rparr>)
      else
        case disk_free env of
          None \<Rightarrow> (None, w\<lparr>files := (files w)(p \<mapsto> data)\<rparr>)
        | Some k \<Rightarrow>
            if length data \<le> k then (None, w\<lparr>files := (files w)(p \<mapsto> data)\<rparr>)
            else (Some ENOSPC, w\<lparr>files := (files w)(p \<mapsto> take k data)\<rparr>))"

text \<open>\<open>saveWav(filename, pcm, sampleRate)\<close>; the program calls it with the default 24000.\<close>

definition saveWav ::
  "gemini_env \<Rightarrow> path \<Rightarrow> buffer \<Rightarrow> nat \<Rightarrow> 'r world \<Rightarrow> js_error option \<times> 'r world" where
  "saveWav env filename pcm sampleRate w =
     (let header = Buffer_alloc 44;
          bytesPerSample = 2;
          byteRate = sampleRate * bytesPerSample;
          dataSize = length pcm
      in case
           then_do (buffer_write ''RIFF'' 0 4 header) (\<lambda>header.
           then_do (writeUInt32LE (36 + dataSize) 4 header) (\<lambda>header.
           then_do (buffer_write ''WAVE'' 8 4 header) (\<lambda>header.
           then_do (buffer_write ''fmt '' 12 4 header) (\<lambda>header.
           then_do (writeUInt32LE 16 16 header) (\<lambda>header.
           then_do (writeUInt16LE 1 20 header) (\<lambda>header.
           then_do (writeUInt16LE 1 22 header) (\<lambda>header.
           then_do (writeUInt32LE sampleRate 24 header) (\<lambda>header.
           then_do (writeUInt32LE byteRate 28 header) (\<lambda>header.
           then_do (writeUInt16LE bytesPerSample 32 header) (\<lambda>header.
           then_do (writeUInt16LE (8 * bytesPerSample) 34 header) (\<lambda>header.
           then_do (buffer_write ''data'' 36 4 header) (\<lambda>header.
           writeUInt32LE dataSize 40 header))))))))))))
         of
           Inl err \<Rightarrow> (Some err, w)
         | Inr header \<Rightarrow> writeFileSync env filename (Buffer_concat [header, pcm]) w)"

text \<open>
  Lines 23 to 53 of the module body: the checks before the synthesis, with the
  credential first.
\<close>

definition gemini_validate ::
  "'a node_env_scheme \<Rightarrow> 'r world \<Rightarrow> 'r world + path \<times> jsstring" where
  "gemini_validate env w =
     (if \<not> truthy (process_env env (js ''GEMINI_API_KEY'')) then
        Inl (process_exit 1 (console_error MSG_GEMINI_KEY_MISSING w))
      else
        let inFile = argv_at env 2; outFile = argv_at env 3 in
        if \<not> truthy inFile \<or> \<not> truthy outFile then
          Inl (process_exit 1 (console_error MSG_USAGE_GEMINI w))
        else
          let absIn = resolve env (the inFile); absOut = resolve env (the outFile) in
          case files w absIn of
            None \<Rightarrow> Inl (process_exit 1 (console_error (MSG_NOT_FOUND absIn) w))
          | Some content \<Rightarrow>
              let rawText = trim (utf8 env content) in
              if rawText = [] then Inl (process_exit 1 (console_error MSG_EMPTY w))
              else Inr (absOut, rawText))"

text \<open>The argument of \<open>generateContent\<close>: line 56 and lines 88 to 99.\<close>

definition gemini_request :: "'a node_env_scheme \<Rightarrow> jsstring \<Rightarrow> gemini_request" where
  "gemini_request env rawText =
     (let text = gemini_STYLE env @ js '':'' @ [0x0A] @ rawText
      in \<lparr>gen_model = gemini_MODEL env, contents_text = text,
          voiceName = gemini_VOICE env\<rparr>)"

text \<open>
  The whole program: the checks, then the asynchronous function of lines 83 to 111
  with the \<open>catch\<close> handler of lines 112 to 115.
\<close>

definition gemini_main :: "gemini_env \<Rightarrow> gemini_request world \<Rightarrow> gemini_request world" where
  "gemini_main env w =
     (case gemini_validate env w of
        Inl w' \<Rightarrow> w'
      | Inr (absOut, rawText) \<Rightarrow>
          let w1 = console_log (MSG_GENERATING (gemini_MODEL env) (gemini_VOICE env)) w;
              request = gemini_request env rawText;
              w2 = w1\<lparr>requests := requests w1 @ [request]\<rparr>
          in (case generateContent env request of
                Inl err \<Rightarrow> process_exit 1 (console_error (MSG_GENERATION_FAILED err) w2)
              | Inr data \<Rightarrow>
                  if \<not> truthy data then process_exit 1 (console_error MSG_NO_AUDIO w2)
                  else
                    let pcm = base64 env (the data) in
                    (case saveWav env absOut pcm 24000 w2 of
                       (Some err, w3) \<Rightarrow>
                         process_exit 1 (console_error (MSG_GENERATION_FAILED err) w3)
                     | (None, w3) \<Rightarrow>
                         process_exit 0 (console_log (MSG_SAVED absOut) w3))))"

section \<open>Reading the fields of a container header\<close>

text \<open>The unsigned little-endian numbers stored at an offset of a file.\<close>

definition readUInt16LE :: "buffer \<Rightarrow> nat \<Rightarrow> nat" where
  "readUInt16LE buf off = unat (buf ! off) + 2 ^ 8 * unat (buf ! (off + 1))"

definition readUInt32LE :: "buffer \<Rightarrow> nat \<Rightarrow> nat" where
  "readUInt32LE buf off =
     unat (buf ! off) + 2 ^ 8 * unat (buf ! (off + 1)) + 2 ^ 16 * unat (buf ! (off + 2))
       + 2 ^ 24 * unat (buf ! (off + 3))"

section \<open>Inputs for the examples\<close>

text \<open>
  Concrete surroundings for the examples below: absolute paths, which \<open>path.resolve\<close>
  leaves as they are, and files of bytes below \<open>0x80\<close>, on which the UTF-8 decoder
  maps each byte to the code unit of the same value.
\<close>

definition example_argv :: "jsstring list" where
  "example_argv = [js ''node'', js ''script.js'', js ''/in.txt'', js ''/out.wav'']"

definition example_tts_env ::
  "(jsstring \<rightharpoonup> jsstring) \<Rightarrow> (nat \<Rightarrow> speech_params \<Rightarrow> js_error + buffer) \<Rightarrow> tts_env" where
  "example_tts_env vars provider =
     \<lparr>process_env = vars, argv = example_argv, resolve = (\<lambda>p. p), utf8 = map ucast,
      speech_create = provider\<rparr>"

text \<open>
  The decoder of the examples knows one string: \<open>AQIDBA==\<close> is the base64 form of
  the bytes 1, 2, 3, 4.
\<close>

definition example_base64 :: "jsstring \<Rightarrow> buffer" where
  "example_base64 s = (if s = js ''AQIDBA=='' then [1, 2, 3, 4] else [])"

definition example_gemini_env ::
  "(jsstring \<rightharpoonup> jsstring) \<Rightarrow> (js_error + jsstring option) \<Rightarrow> nat option \<Rightarrow> gemini_env" where
  "example_gemini_env vars response space =
     \<lparr>process_env = vars, argv = example_argv, resolve = (\<lambda>p. p), utf8 = map ucast,
      generateContent = (\<lambda>request. response), base64 = example_base64,
      disk_free = space\<rparr>"

definition example_world :: "buffer \<Rightarrow> 'r world" where
  "example_world content =
     \<lparr>files = [js ''/in.txt'' \<mapsto> content], stdout = [], stderr = [], requests = [],
      exit_code = None\<rparr>"

text \<open>
  A 44-byte header of a container with two bytes of payload: 24000 Hz, one channel,
  16 bits, a RIFF size of 38 and a data size of 2.
\<close>

definition example_header :: buffer where
  "example_header =
     [0x52, 0x49, 0x46, 0x46, 38, 0, 0, 0, 0x57, 0x41, 0x56, 0x45,
      0x66, 0x6D, 0x74, 0x20, 16, 0, 0, 0, 1, 0, 1, 0,
      0xC0, 0x5D, 0, 0, 0x80, 0xBB, 0, 0, 2, 0, 16, 0,
      0x64, 0x61, 0x74, 0x61, 2, 0, 0, 0]"

section \<open>The chunker\<close>

lemma slice_step: "drop i (take (i + n) s) @ drop (i + n) s = drop i s"
proof -
  have "drop i s = drop i (take (i + n) s @ drop (i + n) s)" by simp
  also have "\<dots> = drop i (take (i + n) s) @ drop (i + n) s"
    by (simp only: drop_append) (simp add: min_def)
  finally show ?thesis by simp
qed

lemma chunk_loop_step:
  "i < length s \<Longrightarrow>
   chunk_loop s i chunks = chunk_loop s (i + CHUNK_LEN) (chunks @ [String_slice s i (i + CHUNK_LEN)])"
  by (subst chunk_loop.simps) simp

lemma chunk_loop_stop: "\<not> i < length s \<Longrightarrow> chunk_loop s i chunks = chunks"
  by (subst chunk_loop.simps) simp

lemma ceil_step:
  "i < (n::nat) \<Longrightarrow> (n - i + 7999) div 8000 = 1 + (n - (i + 8000) + 7999) div 8000"
proof (cases "i + 8000 \<le> n")
  case True
  then have "n - i + 7999 = (n - (i + 8000) + 7999) + 8000" by simp
  then show ?thesis by (simp only: div_add_self2)
next
  case False
  assume "i < n"
  with False have "8000 \<le> n - i + 7999" "n - i + 7999 < 2 * 8000" by simp_all
  then have "(n - i + 7999) div 8000 = 1"
    by (simp add: div_nat_eqI)
  with False show ?thesis by simp
qed

lemma concat_chunk_loop: "concat (chunk_loop s i chunks) = concat chunks @ drop i s"
proof (induction s i chunks rule: chunk_loop.induct)
  case (1 s i chunks)
  show ?case
  proof (cases "i < length s")
    case True
    with 1 show ?thesis by (simp add: chunk_loop_step String_slice_def slice_step)
  next
    case False
    then show ?thesis by (simp add: chunk_loop_stop)
  qed
qed

lemma length_chunk_loop:
  "length (chunk_loop s i chunks) = length chunks + (length s - i + 7999) div 8000"
proof (induction s i chunks rule: chunk_loop.induct)
  case (1 s i chunks)
  show ?case
  proof (cases "i < length s")
    case True
    have "(length s - i + 7999) div 8000 = 1 + (length s - (i + 8000) + 7999) div 8000"
      using True by (rule ceil_step)
    with 1 True show ?thesis by (simp add: chunk_loop_step CHUNK_LEN_def)
  next
    case False
    then show ?thesis by (simp add: chunk_loop_stop)
  qed
qed

lemma chunk_loop_lengths:
  "\<forall>c \<in> set chunks. length c = CHUNK_LEN \<Longrightarrow> i < length s \<Longrightarrow>
   (\<forall>c \<in> set (butlast (chunk_loop s i chunks)). length c = CHUNK_LEN)
   \<and> 0 < length (last (chunk_loop s i chunks))
   \<and> length (last (chunk_loop s i chunks)) \<le> CHUNK_LEN"
proof (induction s i chunks rule: chunk_loop.induct)
  case (1 s i chunks)
  show ?case
  proof (cases "i + CHUNK_LEN < length s")
    case True
    then have len: "length (String_slice s i (i + CHUNK_LEN)) = CHUNK_LEN"
      by (simp add: String_slice_def)
    have "\<forall>c \<in> set (chunks @ [String_slice s i (i + CHUNK_LEN)]). length c = CHUNK_LEN"
      using 1(2) len by simp
    from 1(1) [OF 1(3) this True] show ?thesis
      by (simp add: chunk_loop_step [OF 1(3)])
  next
    case False
    then have stop: "chunk_loop s (i + CHUNK_LEN) (chunks @ [String_slice s i (i + CHUNK_LEN)])
      = chunks @ [String_slice s i (i + CHUNK_LEN)]"
      by (simp add: chunk_loop_stop)
    have "chunk_loop s i chunks = chunks @ [String_slice s i (i + CHUNK_LEN)]"
      by (simp only: chunk_loop_step [OF 1(3)] stop)
    then show ?thesis
      using 1(2,3) False by (simp add: String_slice_def)
  qed
qed

lemma ceil_div: "nat \<lceil>real L / 8000\<rceil> = (L + 7999) div 8000"
  by linarith

text \<open>
  C5. \<open>main\<close> reaches the chunker only with a text that passed the check of line 52,
  that is, with a non-empty text. For every such text of length \<open>L\<close>: when
  \<open>L \<le> 8000\<close> there is exactly one chunk, the text itself; in every case there are
  \<open>ceil(L / 8000)\<close> chunks, each but the last of length 8000, the last of a length
  from 1 to 8000, and the chunks concatenated in order are the text.
\<close>

theorem chunker_correct:
  assumes "str \<noteq> []"
  shows "(length str \<le> 8000 \<longrightarrow> chunk_loop str 0 [] = [str])
    \<and> length (chunk_loop str 0 []) = nat \<lceil>real (length str) / 8000\<rceil>
    \<and> (\<forall>c \<in> set (butlast (chunk_loop str 0 [])). length c = 8000)
    \<and> 0 < length (last (chunk_loop str 0 []))
    \<and> length (last (chunk_loop str 0 [])) \<le> 8000
    \<and> concat (chunk_loop str 0 []) = str"
proof -
  from assms have pos: "0 < length str" by simp
  have one: "chunk_loop str 0 [] = [str]" if "length str \<le> 8000"
  proof -
    have "chunk_loop str 0 [] = chunk_loop str CHUNK_LEN [String_slice str 0 CHUNK_LEN]"
      using chunk_loop_step [OF pos, of "[]"] by simp
    also have "\<dots> = [String_slice str 0 CHUNK_LEN]"
      using that by (simp add: chunk_loop_stop CHUNK_LEN_def)
    also have "String_slice str 0 CHUNK_LEN = str"
      using that by (simp add: String_slice_def CHUNK_LEN_def)
    finally show ?thesis .
  qed
  have count: "length (chunk_loop str 0 []) = nat \<lceil>real (length str) / 8000\<rceil>"
    by (simp add: length_chunk_loop ceil_div)
  have "(\<forall>c \<in> set (butlast (chunk_loop str 0 [])). length c = CHUNK_LEN)
     \<and> 0 < length (last (chunk_loop str 0 []))
     \<and> length (last (chunk_loop str 0 [])) \<le> CHUNK_LEN"
    by (rule chunk_loop_lengths [OF _ pos]) simp
  then have lens: "(\<forall>c \<in> set (butlast (chunk_loop str 0 [])). length c = 8000)
     \<and> 0 < length (last (chunk_loop str 0 []))
     \<and> length (last (chunk_loop str 0 [])) \<le> 8000"
    by (simp add: CHUNK_LEN_def)
  have cat: "concat (chunk_loop str 0 []) = str"
    by (simp add: concat_chunk_loop)
  from one count lens cat show ?thesis by blast
qed

theorem chunker_correct_witness:
  "chunk_loop (js ''Hello world.'') 0 [] = [js ''Hello world.'']
   \<and> length (chunk_loop (replicate 8003 0x61) 0 []) = 2
   \<and> concat (chunk_loop (replicate 8003 0x61) 0 []) = replicate 8003 0x61"
proof -
  have a: "js ''Hello world.'' \<noteq> []" by (simp add: js_def)
  have b: "replicate 8003 (0x61 :: jschar) \<noteq> []" by simp
  have c: "nat \<lceil>real (8003 :: nat) / 8000\<rceil> = 2" by (simp add: ceil_div)
  show ?thesis
    using chunker_correct [OF a] chunker_correct [OF b] c by (simp add: js_def)
qed

section \<open>The synthesis loop of src/tts.js\<close>

lemma tts_loop_stop: "\<not> i < length chunks \<Longrightarrow> tts_loop env absOut chunks i w = (None, w)"
  by (subst tts_loop.simps) simp

lemma tts_loop_fail:
  "i < length chunks \<Longrightarrow> speech_create env i (tts_params env (chunks ! i)) = Inl err \<Longrightarrow>
   tts_loop env absOut chunks i w =
     (Some err, (console_log (MSG_CHUNK (Suc i) (length chunks)) w)
        \<lparr>requests := requests w @ [tts_params env (chunks ! i)]\<rparr>)"
  by (subst tts_loop.simps) (simp add: Let_def console_log_def)

lemma tts_loop_step:
  "i < length chunks \<Longrightarrow> speech_create env i (tts_params env (chunks ! i)) = Inr b \<Longrightarrow>
   tts_loop env absOut chunks i w =
     tts_loop env absOut chunks (Suc i)
       (stream_write absOut (if i = 0 then b else Buffer_slice b HEADER_BYTES)
          ((console_log (MSG_CHUNK (Suc i) (length chunks)) w)
             \<lparr>requests := requests w @ [tts_params env (chunks ! i)]\<rparr>))"
  by (subst tts_loop.simps) (simp add: Let_def console_log_def)

lemma tts_loop_cases:
  obtains (stop) "\<not> i < length chunks"
  | (fail) err where "i < length chunks" "speech_create env i (tts_params env (chunks ! i)) = Inl err"
  | (step) b where "i < length chunks" "speech_create env i (tts_params env (chunks ! i)) = Inr b"
  by (cases "i < length chunks"; cases "speech_create env i (tts_params env (chunks ! i))") auto

lemma tts_loop_other:
  "(p \<noteq> absOut \<longrightarrow> files (snd (tts_loop env absOut chunks i w)) p = files w p)
   \<and> stderr (snd (tts_loop env absOut chunks i w)) = stderr w
   \<and> exit_code (snd (tts_loop env absOut chunks i w)) = exit_code w"
proof (induction "length chunks - i" arbitrary: i w)
  case 0
  then show ?case by (simp add: tts_loop_stop)
next
  case (Suc n)
  show ?case
  proof (cases rule: tts_loop_cases [where i=i and chunks=chunks and env=env])
    case stop
    then show ?thesis by (simp add: tts_loop_stop)
  next
    case (fail err)
    then show ?thesis by (simp add: tts_loop_fail console_log_def)
  next
    case (step b)
    let ?w = "stream_write absOut (if i = 0 then b else Buffer_slice b HEADER_BYTES)
          ((console_log (MSG_CHUNK (Suc i) (length chunks)) w)
             \<lparr>requests := requests w @ [tts_params env (chunks ! i)]\<rparr>)"
    have w: "(p \<noteq> absOut \<longrightarrow> files ?w p = files w p) \<and> stderr ?w = stderr w
      \<and> exit_code ?w = exit_code w"
      by (simp add: stream_write_def console_log_def)
    from Suc(2) have "n = length chunks - (Suc i)" by simp
    from Suc(1) [OF this, of ?w] w show ?thesis
      by (simp only: tts_loop_step [OF step]) simp
  qed
qed

lemma tts_loop_success:
  assumes "\<forall>j. i \<le> j \<and> j < length chunks \<longrightarrow>
             speech_create env j (tts_params env (chunks ! j)) = Inr (rs ! j)"
    and "files w absOut = Some old"
  shows "fst (tts_loop env absOut chunks i w) = None
    \<and> files (snd (tts_loop env absOut chunks i w)) absOut =
        Some (old @ concat (map (\<lambda>j. if j = 0 then rs ! j else Buffer_slice (rs ! j) HEADER_BYTES)
                              [i..<length chunks]))
    \<and> requests (snd (tts_loop env absOut chunks i w)) =
        requests w @ map (tts_params env) (drop i chunks)"
  using assms
proof (induction "length chunks - i" arbitrary: i w old)
  case 0
  then show ?case by (simp add: tts_loop_stop)
next
  case (Suc n)
  from Suc(2) have lt: "i < length chunks" by simp
  from Suc(3) lt have ok: "speech_create env i (tts_params env (chunks ! i)) = Inr (rs ! i)"
    by simp
  have n: "n = length chunks - (Suc i)" using Suc(2) by simp
  have rest: "\<forall>j. Suc i \<le> j \<and> j < length chunks \<longrightarrow>
             speech_create env j (tts_params env (chunks ! j)) = Inr (rs ! j)"
    using Suc(3) by simp
  let ?w = "stream_write absOut (if i = 0 then rs ! i else Buffer_slice (rs ! i) HEADER_BYTES)
          ((console_log (MSG_CHUNK (Suc i) (length chunks)) w)
             \<lparr>requests := requests w @ [tts_params env (chunks ! i)]\<rparr>)"
  have f: "files ?w absOut = Some (old @ (if i = 0 then rs ! i else Buffer_slice (rs ! i) HEADER_BYTES))"
    using Suc(4) by (simp add: stream_write_def console_log_def)
  have r: "requests ?w = requests w @ [tts_params env (chunks ! i)]"
    by (simp add: stream_write_def console_log_def)
  have d: "drop i chunks = chunks ! i # drop (Suc i) chunks"
    using lt by (simp add: Cons_nth_drop_Suc)
  from Suc(1) [OF n rest f] show ?case
    by (simp add: tts_loop_step [OF lt ok] r d upt_conv_Cons [OF lt] del: upt_Suc)
qed

lemma tts_loop_requests:
  "\<exists>k. requests (snd (tts_loop env absOut chunks i w)) =
        requests w @ map (tts_params env) (take k (drop i chunks))
       \<and> (i < length chunks \<longrightarrow> 0 < k)"
proof (induction "length chunks - i" arbitrary: i w)
  case 0
  then show ?case by (simp add: tts_loop_stop)
next
  case (Suc n)
  from Suc(2) have lt: "i < length chunks" by simp
  have d: "drop i chunks = chunks ! i # drop (Suc i) chunks"
    using lt by (simp add: Cons_nth_drop_Suc)
  show ?case
  proof (cases rule: tts_loop_cases [where i=i and chunks=chunks and env=env])
    case stop
    with lt show ?thesis by simp
  next
    case (fail err)
    have "requests (snd (tts_loop env absOut chunks i w)) =
        requests w @ map (tts_params env) (take 1 (drop i chunks))"
      by (simp add: tts_loop_fail [OF fail] console_log_def d)
    then show ?thesis by (intro exI [of _ 1]) simp
  next
    case (step b)
    let ?w = "stream_write absOut (if i = 0 then b else Buffer_slice b HEADER_BYTES)
          ((console_log (MSG_CHUNK (Suc i) (length chunks)) w)
             \<lparr>requests := requests w @ [tts_params env (chunks ! i)]\<rparr>)"
    have r: "requests ?w = requests w @ [tts_params env (chunks ! i)]"
      by (simp add: stream_write_def console_log_def)
    from Suc(2) have "n = length chunks - (Suc i)" by simp
    from Suc(1) [OF this, of ?w] obtain k where
      "requests (snd (tts_loop env absOut chunks (Suc i) ?w)) =
         requests ?w @ map (tts_params env) (take k (drop (Suc i) chunks))"
      by blast
    then have "requests (snd (tts_loop env absOut chunks i w)) =
        requests w @ map (tts_params env) (take (Suc k) (drop i chunks))"
      by (simp only: tts_loop_step [OF step] r d) simp
    then show ?thesis by (intro exI [of _ "Suc k"]) simp
  qed
qed

section \<open>Runs of src/tts.js\<close>

lemma tts_validate_Inr:
  "tts_validate env w = Inr (absOut, str) \<Longrightarrow> str \<noteq> []"
  by (auto simp: tts_validate_def Let_def split: if_splits option.splits)

lemma assemble_eq:
  assumes "rs \<noteq> []"
  shows "concat (map (\<lambda>j. if j = 0 then rs ! j else Buffer_slice (rs ! j) HEADER_BYTES)
           [0..<length rs]) = hd rs @ concat (map (\<lambda>r. Buffer_slice r HEADER_BYTES) (tl rs))"
proof -
  from assms obtain r rest where rs: "rs = r # rest" by (cases rs) auto
  have upt: "[0..<length rs] = 0 # map Suc [0..<length rest]"
    by (metis rs length_Cons map_Suc_upt upt_conv_Cons zero_less_Suc)
  have "map (\<lambda>j. if j = 0 then rs ! j else Buffer_slice (rs ! j) HEADER_BYTES) [0..<length rs]
      = r # map (\<lambda>j. Buffer_slice (rest ! j) HEADER_BYTES) [0..<length rest]"
    by (simp only: upt) (simp add: rs comp_def)
  also have "map (\<lambda>j. Buffer_slice (rest ! j) HEADER_BYTES) [0..<length rest]
      = map (\<lambda>r. Buffer_slice r HEADER_BYTES) rest"
    by (rule nth_equalityI) simp_all
  finally show ?thesis by (simp add: rs)
qed

lemma tts_main_ok:
  assumes v: "tts_validate env w = Inr (absOut, str)"
    and n: "length rs = length (chunk_loop str 0 [])"
    and ok: "\<forall>j < length rs.
               speech_create env j (tts_params env (chunk_loop str 0 [] ! j)) = Inr (rs ! j)"
  shows "rs \<noteq> []
    \<and> files (tts_main env w) =
        (files w)(absOut \<mapsto> hd rs @ concat (map (\<lambda>r. Buffer_slice r HEADER_BYTES) (tl rs)))
    \<and> requests (tts_main env w) = requests w @ map (tts_params env) (chunk_loop str 0 [])
    \<and> stderr (tts_main env w) = stderr w
    \<and> exit_code (tts_main env w) = Some 0"
proof -
  let ?chunks = "chunk_loop str 0 []"
  let ?out = "createWriteStream absOut w"
  have "0 < length str"
    using tts_validate_Inr [OF v] by simp
  then have "0 < length ?chunks"
    by (simp add: length_chunk_loop div_greater_zero_iff Suc_le_eq)
  with n have ne: "rs \<noteq> []" by auto
  have ok': "\<forall>j. 0 \<le> j \<and> j < length ?chunks \<longrightarrow>
     speech_create env j (tts_params env (?chunks ! j)) = Inr (rs ! j)"
    using ok n by simp
  have f0: "files ?out absOut = Some []" by (simp add: createWriteStream_def)
  note L = tts_loop_success [OF ok' f0]
  note F = tts_loop_other [of _ absOut env ?chunks 0 ?out]
  obtain w1 where loop: "tts_loop env absOut ?chunks 0 ?out = (None, w1)"
    using L by (cases "tts_loop env absOut ?chunks 0 ?out") simp
  have w1: "files w1 absOut = Some (hd rs @ concat (map (\<lambda>r. Buffer_slice r HEADER_BYTES) (tl rs)))"
    using L loop assemble_eq [OF ne] n by simp
  have other: "p \<noteq> absOut \<Longrightarrow> files w1 p = files w p" for p
    using F [of p] loop by (simp add: createWriteStream_def)
  have files: "files w1 = (files w)(absOut \<mapsto> hd rs @ concat (map (\<lambda>r. Buffer_slice r HEADER_BYTES) (tl rs)))"
    using w1 other by (intro ext) simp
  have reqs: "requests w1 = requests w @ map (tts_params env) ?chunks"
    using L loop by (simp add: createWriteStream_def)
  have err: "stderr w1 = stderr w"
    using F [of absOut] loop by (simp add: createWriteStream_def)
  have main: "tts_main env w = process_exit 0
                    (console_log
                       (MSG_MODEL (tts_MODEL env)
                          (if take 3 (tts_MODEL env) = js ''tts''
                           then Some (tts_VOICE env, tts_SPEED env) else None))
                       (console_log (MSG_SUCCESS absOut) w1))"
    by (simp add: tts_main_def v loop)
  show ?thesis
    using ne files reqs err by (simp add: main process_exit_def console_log_def)
qed

lemma example_tts_validate:
  assumes "truthy (vars (js ''OPENAI_API_KEY''))" and "trim (map ucast content) \<noteq> []"
  shows "tts_validate (example_tts_env vars provider) (example_world content)
         = Inr (js ''/out.wav'', trim (map ucast content))"
  using assms
  by (simp add: tts_validate_def example_tts_env_def example_world_def example_argv_def
      argv_at_def truthy_def Let_def js_def)

lemma trim_replicate:
  "\<not> is_white_space c \<Longrightarrow> trim (replicate n c) = replicate n c"
  by (simp add: trim_def)

lemma not_white_a: "\<not> is_white_space 0x61"
  by (simp add: is_white_space_def)

lemma chunk_loop_8003: "chunk_loop (replicate 8003 c) 0 [] = [replicate 8000 c, replicate 3 c]"
  by (simp add: chunk_loop_step chunk_loop_stop CHUNK_LEN_def String_slice_def)

lemma chunk_loop_short:
  "s \<noteq> [] \<Longrightarrow> length s \<le> 8000 \<Longrightarrow> chunk_loop s 0 [] = [s]"
  by (simp add: chunk_loop_step chunk_loop_stop CHUNK_LEN_def String_slice_def)

text \<open>
  C2. In a run of \<open>src/tts.js\<close> that passes the checks and in which every synthesis
  call answers, call \<open>j\<close> with the bytes \<open>rs ! j\<close>, there is at least one response and
  the output file holds exactly the first response in full followed, in order, by
  every later response without its first 44 bytes; its length is that of the first
  response plus what each later response has beyond 44 bytes.
\<close>

theorem tts_assembly_layout:
  assumes "tts_validate env w = Inr (absOut, str)"
    and "length rs = length (chunk_loop str 0 [])"
    and "\<forall>j < length rs.
           speech_create env j (tts_params env (chunk_loop str 0 [] ! j)) = Inr (rs ! j)"
  shows "1 \<le> length rs
    \<and> files (tts_main env w) absOut = Some (hd rs @ concat (map (drop 44) (tl rs)))
    \<and> length (hd rs @ concat (map (drop 44) (tl rs)))
        = length (hd rs) + (\<Sum>r\<leftarrow>tl rs. length r - 44)"
proof -
  have eq: "(\<lambda>r. Buffer_slice r HEADER_BYTES) = drop 44"
    by (simp add: Buffer_slice_def HEADER_BYTES_def fun_eq_iff)
  have len: "length (concat (map (drop 44) xs)) = (\<Sum>r\<leftarrow>xs. length r - 44)"
    for xs :: "buffer list"
    by (induction xs) simp_all
  from tts_main_ok [OF assms] have "rs \<noteq> []"
    and "files (tts_main env w) absOut = Some (hd rs @ concat (map (drop 44) (tl rs)))"
    by (simp_all add: eq)
  then show ?thesis
    by (cases rs) (simp_all add: len)
qed

theorem tts_assembly_layout_witness:
  "files (tts_main
      (example_tts_env [js ''OPENAI_API_KEY'' \<mapsto> js ''key'']
         (\<lambda>i p. Inr (if i = 0 then replicate 44 1 @ replicate 100 3
                      else replicate 44 2 @ replicate 50 4)))
      (example_world (replicate 8003 0x61))) (js ''/out.wav'')
    = Some (replicate 44 1 @ replicate 100 3 @ replicate 50 4)
   \<and> length (replicate 44 (1 :: byte) @ replicate 100 3 @ replicate 50 4) = 44 + 100 + 50"
proof -
  let ?env = "example_tts_env [js ''OPENAI_API_KEY'' \<mapsto> js ''key'']
         (\<lambda>i p. Inr (if i = 0 then replicate 44 1 @ replicate 100 3
                      else replicate 44 2 @ replicate 50 4))"
  let ?rs = "[replicate 44 1 @ replicate 100 3, replicate 44 2 @ replicate 50 4] :: buffer list"
  have v: "tts_validate ?env (example_world (replicate 8003 0x61))
      = Inr (js ''/out.wav'', replicate 8003 0x61)"
    using example_tts_validate [of "[js ''OPENAI_API_KEY'' \<mapsto> js ''key'']" "replicate 8003 0x61"]
    by (simp add: trim_replicate not_white_a truthy_def js_def)
  have n: "length ?rs = length (chunk_loop (replicate 8003 (0x61 :: jschar)) 0 [])"
    by (simp add: chunk_loop_8003)
  have ok: "\<forall>j < length ?rs.
      speech_create ?env j (tts_params ?env (chunk_loop (replicate 8003 0x61) 0 [] ! j))
        = Inr (?rs ! j)"
    by (simp add: example_tts_env_def less_Suc_eq)
  show ?thesis
    using tts_assembly_layout [OF v n ok] by simp
qed

text \<open>
  C9. Slicing the header off a response shorter than 44 bytes gives the empty
  buffer. A run in which every synthesis call answers ends with code 0 and prints no
  error whatever the lengths of the responses are, and a response after the first
  that is shorter than 44 bytes adds nothing to the output file.
\<close>

theorem short_response_contributes_nothing:
  assumes "tts_validate env w = Inr (absOut, str)"
    and "length rs = length (chunk_loop str 0 [])"
    and "\<forall>j < length rs.
           speech_create env j (tts_params env (chunk_loop str 0 [] ! j)) = Inr (rs ! j)"
  shows "(\<forall>r. length r < 44 \<longrightarrow> Buffer_slice r HEADER_BYTES = [])
    \<and> exit_code (tts_main env w) = Some 0
    \<and> stderr (tts_main env w) = stderr w
    \<and> files (tts_main env w) absOut =
        Some (hd rs @ concat (map (\<lambda>r. if length r < 44 then [] else drop 44 r) (tl rs)))"
proof -
  have eq: "(\<lambda>r. Buffer_slice r HEADER_BYTES) = (\<lambda>r. if length r < 44 then [] else drop 44 r)"
    by (simp add: Buffer_slice_def HEADER_BYTES_def fun_eq_iff)
  from tts_main_ok [OF assms] show ?thesis
    by (simp add: eq) (simp add: Buffer_slice_def HEADER_BYTES_def)
qed

theorem short_response_contributes_nothing_witness:
  "files (tts_main
      (example_tts_env [js ''OPENAI_API_KEY'' \<mapsto> js ''key'']
         (\<lambda>i p. Inr (if i = 0 then example_header @ [1, 2] else replicate 10 7)))
      (example_world (replicate 8003 0x61))) (js ''/out.wav'')
    = Some (example_header @ [1, 2])
   \<and> exit_code (tts_main
      (example_tts_env [js ''OPENAI_API_KEY'' \<mapsto> js ''key'']
         (\<lambda>i p. Inr (if i = 0 then example_header @ [1, 2] else replicate 10 7)))
      (example_world (replicate 8003 0x61))) = Some 0"
proof -
  let ?env = "example_tts_env [js ''OPENAI_API_KEY'' \<mapsto> js ''key'']
         (\<lambda>i p. Inr (if i = 0 then example_header @ [1, 2] else replicate 10 7))"
  let ?rs = "[example_header @ [1, 2], replicate 10 7] :: buffer list"
  have v: "tts_validate ?env (example_world (replicate 8003 0x61))
      = Inr (js ''/out.wav'', replicate 8003 0x61)"
    using example_tts_validate [of "[js ''OPENAI_API_KEY'' \<mapsto> js ''key'']" "replicate 8003 0x61"]
    by (simp add: trim_replicate not_white_a truthy_def js_def)
  have n: "length ?rs = length (chunk_loop (replicate 8003 (0x61 :: jschar)) 0 [])"
    by (simp add: chunk_loop_8003)
  have ok: "\<forall>j < length ?rs.
      speech_create ?env j (tts_params ?env (chunk_loop (replicate 8003 0x61) 0 [] ! j))
        = Inr (?rs ! j)"
    by (simp add: example_tts_env_def less_Suc_eq)
  show ?thesis
    using short_response_contributes_nothing [OF v n ok] by simp
qed

lemma readUInt32LE_append:
  "off + 4 \<le> length h \<Longrightarrow> readUInt32LE (h @ p) off = readUInt32LE h off"
  by (simp add: readUInt32LE_def nth_append)

text \<open>
  C1, as amended. When every response is the same 44-byte header \<open>h\<close> followed by a
  payload, the output file is \<open>h\<close> followed by all payloads in order: the bytes after
  the header have the summed length of the payloads, and the data-size field (offset
  40) and the total-size field (offset 4) of the file are those of \<open>h\<close>, as the first
  response declared them.
\<close>

theorem tts_header_fields_unchanged:
  assumes "tts_validate env w = Inr (absOut, str)"
    and "length ps = length (chunk_loop str 0 [])"
    and "length h = 44"
    and "\<forall>j < length ps.
           speech_create env j (tts_params env (chunk_loop str 0 [] ! j)) = Inr (h @ ps ! j)"
  shows "files (tts_main env w) absOut = Some (h @ concat ps)
    \<and> length (drop 44 (h @ concat ps)) = (\<Sum>p\<leftarrow>ps. length p)
    \<and> readUInt32LE (h @ concat ps) 40 = readUInt32LE h 40
    \<and> readUInt32LE (h @ concat ps) 4 = readUInt32LE h 4"
proof -
  let ?rs = "map (\<lambda>p. h @ p) ps"
  have n: "length ?rs = length (chunk_loop str 0 [])"
    using assms(2) by simp
  have ok: "\<forall>j < length ?rs.
      speech_create env j (tts_params env (chunk_loop str 0 [] ! j)) = Inr (?rs ! j)"
    using assms(4) by simp
  from tts_main_ok [OF assms(1) n ok] have ne: "ps \<noteq> []"
    and f: "files (tts_main env w) absOut =
      Some (hd ?rs @ concat (map (\<lambda>r. Buffer_slice r HEADER_BYTES) (tl ?rs)))"
    by simp_all
  have strip: "map ((\<lambda>r. Buffer_slice r HEADER_BYTES) \<circ> (@) h) qs = qs" for qs
    using assms(3) by (induction qs) (simp_all add: Buffer_slice_def HEADER_BYTES_def)
  from ne obtain p rest where ps: "ps = p # rest" by (cases ps) auto
  have "hd ?rs @ concat (map (\<lambda>r. Buffer_slice r HEADER_BYTES) (tl ?rs)) = h @ concat ps"
    by (simp add: ps strip)
  with f have out: "files (tts_main env w) absOut = Some (h @ concat ps)" by simp
  have len: "length (drop 44 (h @ concat ps)) = (\<Sum>p\<leftarrow>ps. length p)"
    using assms(3) by (simp add: length_concat)
  from out len show ?thesis
    using assms(3) by (simp add: readUInt32LE_append)
qed

theorem tts_header_fields_unchanged_witness:
  "files (tts_main
      (example_tts_env [js ''OPENAI_API_KEY'' \<mapsto> js ''key'']
         (\<lambda>i p. Inr (example_header @ (if i = 0 then [1, 2] else [3, 4]))))
      (example_world (replicate 8003 0x61))) (js ''/out.wav'')
    = Some (example_header @ [1, 2, 3, 4])
   \<and> readUInt32LE (example_header @ [1, 2, 3, 4]) 40 = readUInt32LE example_header 40"
proof -
  let ?env = "example_tts_env [js ''OPENAI_API_KEY'' \<mapsto> js ''key'']
         (\<lambda>i p. Inr (example_header @ (if i = 0 then [1, 2] else [3, 4])))"
  let ?ps = "[[1, 2], [3, 4]] :: buffer list"
  have v: "tts_validate ?env (example_world (replicate 8003 0x61))
      = Inr (js ''/out.wav'', replicate 8003 0x61)"
    using example_tts_validate [of "[js ''OPENAI_API_KEY'' \<mapsto> js ''key'']" "replicate 8003 0x61"]
    by (simp add: trim_replicate not_white_a truthy_def js_def)
  have n: "length ?ps = length (chunk_loop (replicate 8003 (0x61 :: jschar)) 0 [])"
    by (simp add: chunk_loop_8003)
  have h: "length example_header = 44"
    by (simp add: example_header_def)
  have ok: "\<forall>j < length ?ps.
      speech_create ?env j (tts_params ?env (chunk_loop (replicate 8003 0x61) 0 [] ! j))
        = Inr (example_header @ ?ps ! j)"
    by (simp add: example_tts_env_def less_Suc_eq)
  show ?thesis
    using tts_header_fields_unchanged [OF v n h ok] by simp
qed

text \<open>
  C1 as stated fails: two responses with the same header, each a valid container with
  two bytes of payload, give a file with four bytes of payload whose header still
  declares a data size of 2 and a total size of 38.
\<close>

theorem tts_data_size_counterexample:
  "files (tts_main
      (example_tts_env [js ''OPENAI_API_KEY'' \<mapsto> js ''key'']
         (\<lambda>i p. Inr (example_header @ (if i = 0 then [1, 2] else [3, 4]))))
      (example_world (replicate 8003 0x61))) (js ''/out.wav'')
    = Some (example_header @ [1, 2, 3, 4])
   \<and> readUInt32LE (example_header @ [1, 2, 3, 4]) 40 \<noteq> length [1, 2 :: byte] + length [3, 4 :: byte]
   \<and> readUInt32LE (example_header @ [1, 2, 3, 4]) 4 \<noteq> 36 + (length [1, 2 :: byte] + length [3, 4 :: byte])"
proof -
  let ?env = "example_tts_env [js ''OPENAI_API_KEY'' \<mapsto> js ''key'']
         (\<lambda>i p. Inr (example_header @ (if i = 0 then [1, 2] else [3, 4])))"
  let ?rs = "[example_header @ [1, 2], example_header @ [3, 4]] :: buffer list"
  have v: "tts_validate ?env (example_world (replicate 8003 0x61))
      = Inr (js ''/out.wav'', replicate 8003 0x61)"
    using example_tts_validate [of "[js ''OPENAI_API_KEY'' \<mapsto> js ''key'']" "replicate 8003 0x61"]
    by (simp add: trim_replicate not_white_a truthy_def js_def)
  have n: "length ?rs = length (chunk_loop (replicate 8003 (0x61 :: jschar)) 0 [])"
    by (simp add: chunk_loop_8003)
  have ok: "\<forall>j < length ?rs.
      speech_create ?env j (tts_params ?env (chunk_loop (replicate 8003 0x61) 0 [] ! j))
        = Inr (?rs ! j)"
    by (simp add: example_tts_env_def less_Suc_eq)
  have h: "length example_header = 44"
    by (simp add: example_header_def)
  have out: "files (tts_main ?env (example_world (replicate 8003 0x61))) (js ''/out.wav'')
    = Some (example_header @ [1, 2, 3, 4])"
    using tts_main_ok [OF v n ok] h by (simp add: Buffer_slice_def HEADER_BYTES_def)
  have "readUInt32LE (example_header @ [1, 2, 3, 4]) 40 = 2"
    and "readUInt32LE (example_header @ [1, 2, 3, 4]) 4 = 38"
    by (simp_all add: readUInt32LE_def example_header_def)
  with out show ?thesis by simp
qed

section \<open>The speed of src/tts.js\<close>

lemma round_half_even_int: "round_half_even (of_int q) = q"
  by (simp add: round_half_even_def)

lemma to_double_exact:
  assumes "0 < m" and "m < 2 ^ 53"
  shows "to_double neg (of_int m) = Finite (if neg then - of_int m else of_int m)"
proof -
  define E where "E = denorm_exp"
  define b where "b = nat (bitlen m)"
  have "bitlen m \<noteq> 0"
    using assms(1) by (simp add: bitlen_eq_zero_iff)
  then have b1: "1 \<le> b"
    using bitlen_nonneg [of m] by (simp add: b_def)
  have "bitlen m \<le> 53"
    using assms(2) by (simp add: bitlen_le_iff_power)
  then have b53: "b \<le> 53" by (simp add: b_def)
  define k where "k = b + E - 53"
  have kle: "k \<le> E" using b53 by (simp add: k_def)
  have E53: "53 \<le> E" by (simp add: E_def denorm_exp_def)
  have t: "(of_int m :: rat) * 2 ^ E = of_int (m * 2 ^ E)" by simp
  have bl: "bitlen (m * 2 ^ E) = bitlen m + int E"
    using assms(1) by (rule bitlen_pow2)
  have k: "nat (bitlen \<lfloor>(of_int m :: rat) * 2 ^ E\<rfloor>) - 53 = k"
    using bitlen_nonneg [of m]
    by (simp only: t floor_of_int bl) (simp add: k_def b_def nat_add_distrib)
  have splitr: "(2 :: rat) ^ E = 2 ^ (E - k) * 2 ^ k"
    using kle by (simp add: power_add [symmetric])
  have spliti: "(2 :: int) ^ E = 2 ^ (E - k) * 2 ^ k"
    using kle by (simp add: power_add [symmetric])
  have q: "(of_int m :: rat) * 2 ^ E / 2 ^ k = of_int (m * 2 ^ (E - k))"
    by (simp add: splitr)
  have n: "round_half_even ((of_int m :: rat) * 2 ^ E / 2 ^ k) * 2 ^ k = m * 2 ^ E"
    by (simp only: q round_half_even_int) (simp add: spliti)
  have lt: "\<not> 2 ^ (1024 + E) \<le> m * 2 ^ E"
  proof -
    have "m * 2 ^ E < 2 ^ 53 * 2 ^ E"
      using assms(2) by (simp only: mult_less_cancel_right) simp
    also have "\<dots> \<le> (2 :: int) ^ 1024 * 2 ^ E"
      by (simp only: mult_le_cancel_right) simp
    finally show ?thesis by (simp add: power_add)
  qed
  have nz: "m * 2 ^ E \<noteq> 0" using assms(1) by simp
  have val: "(of_int (m * 2 ^ E) :: rat) / 2 ^ E = of_int m" by simp
  have "to_double neg (of_int m) =
      Finite ((if neg then - 1 else 1) * of_int (m * 2 ^ E) / 2 ^ E)"
    using lt nz by (simp only: to_double_def Let_def E_def [symmetric] k n if_False)
  also have "\<dots> = Finite (if neg then - of_int m else of_int m)"
    by simp
  finally show ?thesis .
qed

lemma to_double_overflow:
  assumes "2 ^ 1024 \<le> a"
  shows "to_double neg a = Infinity neg"
proof -
  define E where "E = denorm_exp"
  define t where "t = a * 2 ^ E"
  define b where "b = nat (bitlen \<lfloor>t\<rfloor>)"
  define k where "k = b - 53"
  have tge: "2 ^ (1024 + E) \<le> t"
    using assms by (simp add: t_def power_add)
  then have fge: "2 ^ (1024 + E) \<le> \<lfloor>t\<rfloor>"
    by (simp add: le_floor_iff)
  then have fpos: "0 < \<lfloor>t\<rfloor>"
    by (rule less_le_trans [rotated]) simp
  from bitlen_bounds [OF fpos] have lo: "2 ^ nat (bitlen \<lfloor>t\<rfloor> - 1) \<le> \<lfloor>t\<rfloor>"
    and hi: "\<lfloor>t\<rfloor> < 2 ^ b"
    by (simp_all add: b_def)
  from fge hi have "(2 :: int) ^ (1024 + E) < 2 ^ b" by (rule le_less_trans)
  then have bgt: "1024 + E < b" by (simp only: power_strict_increasing_iff one_less_numeral_iff semiring_norm)
  then have b53: "53 \<le> b" by simp
  have e: "b - 1 = 52 + k"
    using b53 by (simp add: k_def)
  have b1: "nat (bitlen \<lfloor>t\<rfloor> - 1) = b - 1"
    by (simp add: b_def nat_diff_distrib bitlen_nonneg)
  have "(2 :: int) ^ (b - 1) \<le> \<lfloor>t\<rfloor>" using lo by (simp only: b1)
  then have "(2 :: rat) ^ (b - 1) \<le> t"
    by (metis floor_less_cancel linorder_not_le of_int_floor_le of_int_numeral of_int_power order_trans of_int_le_iff)
  moreover have "(2 :: rat) ^ (b - 1) = 2 ^ 52 * 2 ^ k"
    by (simp only: e power_add)
  ultimately have "2 ^ 52 \<le> t / 2 ^ k"
    by (simp add: pos_le_divide_eq)
  then have "2 ^ 52 \<le> \<lfloor>t / 2 ^ k\<rfloor>"
    by (simp add: le_floor_iff)
  moreover have "\<lfloor>x\<rfloor> \<le> round_half_even x" for x
    by (simp add: round_half_even_def Let_def)
  ultimately have r: "2 ^ 52 \<le> round_half_even (t / 2 ^ k)"
    by (rule order_trans)
  have "(2 :: int) ^ (1024 + E) \<le> 2 ^ (b - 1)"
    using bgt by (intro power_increasing) simp_all
  also have "\<dots> = 2 ^ 52 * 2 ^ k"
    by (simp only: e power_add)
  also have "\<dots> \<le> round_half_even (t / 2 ^ k) * 2 ^ k"
    using r by (intro mult_right_mono) simp_all
  finally have "2 ^ (1024 + E) \<le> round_half_even (t / 2 ^ k) * 2 ^ k" .
  then show ?thesis
    by (simp only: to_double_def Let_def E_def [symmetric] t_def [symmetric] b_def [symmetric]
        k_def [symmetric] if_True)
qed

lemma to_double_one: "to_double False 1 = Finite 1"
  using to_double_exact [of 1 False] by simp

lemma to_double_five: "to_double False 5 = Finite 5"
  using to_double_exact [of 5 False] by simp

lemmas parseFloat_eval = parseFloat_def strip_sign_def js_def is_digit_def is_white_space_def
  digits_value_def exponent_part_def Let_def

lemma parseFloat_default: "parseFloat (js ''1.0'') = Finite 1"
  by (simp add: parseFloat_eval to_double_one)

lemma parseFloat_five: "parseFloat (js ''5'') = Finite 5"
  by (simp add: parseFloat_eval to_double_five)

lemma parseFloat_huge: "parseFloat (js ''1e400'') = Infinity False"
proof -
  have "parseFloat (js ''1e400'') = to_double False (10 ^ 400)"
    by (simp add: parseFloat_eval)
  also have "\<dots> = Infinity False"
    by (rule to_double_overflow) simp
  finally show ?thesis .
qed

lemma parseFloat_NaN:
  assumes "case dropWhile is_white_space s of [] \<Rightarrow> True
           | c # r \<Rightarrow> \<not> is_digit c \<and> c \<notin> set (js ''+-.I'')"
  shows "parseFloat s = NaN"
proof (cases "dropWhile is_white_space s")
  case Nil
  show ?thesis
    by (simp only: parseFloat_def Nil) (simp add: strip_sign_def js_def)
next
  case (Cons c r)
  with assms have c: "\<not> is_digit c" "c \<noteq> 0x2B" "c \<noteq> 0x2D" "c \<noteq> 0x2E" "c \<noteq> 0x49"
    by (simp_all add: js_def)
  show ?thesis
    by (simp only: parseFloat_def Cons) (simp add: strip_sign_def js_def c)
qed

lemma tts_validate_passes:
  assumes "truthy (process_env env (js ''OPENAI_API_KEY''))"
    and "argv_at env 2 = Some inFile" and "inFile \<noteq> []" and "truthy (argv_at env 3)"
    and "files w (resolve env inFile) = Some content"
    and "trim (utf8 env content) \<noteq> []"
  shows "tts_validate env w = Inr (resolve env (the (argv_at env 3)), trim (utf8 env content))"
  using assms by (simp add: tts_validate_def Let_def truthy_def)

lemma tts_main_requests:
  assumes v: "tts_validate env w = Inr (absOut, str)"
  shows "\<exists>k. 0 < k \<and> requests (tts_main env w) =
           requests w @ map (tts_params env) (take k (chunk_loop str 0 []))"
proof -
  let ?chunks = "chunk_loop str 0 []"
  let ?out = "createWriteStream absOut w"
  have "0 < length str"
    using tts_validate_Inr [OF v] by simp
  then have pos: "0 < length ?chunks"
    by (simp add: length_chunk_loop div_greater_zero_iff Suc_le_eq)
  from tts_loop_requests [of env absOut ?chunks 0 ?out] pos obtain k where
    k: "0 < k" "requests (snd (tts_loop env absOut ?chunks 0 ?out)) =
        requests w @ map (tts_params env) (take k ?chunks)"
    by (auto simp: createWriteStream_def)
  obtain r w1 where loop: "tts_loop env absOut ?chunks 0 ?out = (r, w1)"
    by (cases "tts_loop env absOut ?chunks 0 ?out")
  have "requests (tts_main env w) = requests w1"
    by (cases r)
      (simp_all add: tts_main_def v loop Let_def process_exit_def console_error_def
        console_log_def unlinkSync_def)
  with k loop show ?thesis by auto
qed

lemma speed_of_params:
  "tts_MODEL env \<noteq> js ''gpt-4o-mini-tts'' \<Longrightarrow> speed (tts_params env chunk) = Some (tts_SPEED env)"
  by (simp add: tts_params_def)

text \<open>
  C10, as amended. Take any run with the credential, both arguments and an input file
  whose text is not empty, and a model other than \<open>gpt-4o-mini-tts\<close>. A non-empty
  value of \<open>TTS_SPEED\<close> is parsed by \<open>parseFloat\<close> and nothing else is done to it:
  there is no check of a range. When the variable is unset or empty the speed is 1. A
  value that, after leading white space, is empty or starts with a character that is no
  digit, sign, dot or \<open>I\<close> parses to \<open>NaN\<close>. Whatever the value is, at least one
  request is sent and every request sent carries this speed; and when every synthesis
  call answers, the run requests every chunk, prints no error and ends with code 0.
\<close>

theorem speed_not_validated:
  assumes "truthy (process_env env (js ''OPENAI_API_KEY''))"
    and "argv_at env 2 = Some inFile" and "inFile \<noteq> []" and "truthy (argv_at env 3)"
    and "files w (resolve env inFile) = Some content"
    and "trim (utf8 env content) \<noteq> []"
    and "tts_MODEL env \<noteq> js ''gpt-4o-mini-tts''"
  shows "(process_env env (js ''TTS_SPEED'') = Some s \<and> s \<noteq> [] \<longrightarrow> tts_SPEED env = parseFloat s)
   \<and> (process_env env (js ''TTS_SPEED'') = None \<or> process_env env (js ''TTS_SPEED'') = Some []
        \<longrightarrow> tts_SPEED env = Finite 1)
   \<and> ((case dropWhile is_white_space s of [] \<Rightarrow> True
         | c # r \<Rightarrow> \<not> is_digit c \<and> c \<notin> set (js ''+-.I'')) \<longrightarrow> parseFloat s = NaN)
   \<and> (\<exists>reqs. reqs \<noteq> [] \<and> requests (tts_main env w) = requests w @ reqs
        \<and> (\<forall>p \<in> set reqs. speed p = Some (tts_SPEED env)))
   \<and> ((\<forall>j < length (chunk_loop (trim (utf8 env content)) 0 []).
          \<exists>r. speech_create env j
                (tts_params env (chunk_loop (trim (utf8 env content)) 0 [] ! j)) = Inr r)
        \<longrightarrow> exit_code (tts_main env w) = Some 0 \<and> stderr (tts_main env w) = stderr w
          \<and> requests (tts_main env w) =
              requests w @ map (tts_params env) (chunk_loop (trim (utf8 env content)) 0 []))"
proof -
  let ?str = "trim (utf8 env content)"
  let ?chunks = "chunk_loop ?str 0 []"
  note v = tts_validate_passes [OF assms(1-6)]
  have a: "tts_SPEED env = parseFloat s"
    if "process_env env (js ''TTS_SPEED'') = Some s" "s \<noteq> []"
    using that by (simp add: tts_SPEED_def or_else_def)
  have b: "tts_SPEED env = Finite 1"
    if "process_env env (js ''TTS_SPEED'') = None \<or> process_env env (js ''TTS_SPEED'') = Some []"
    using that by (auto simp: tts_SPEED_def or_else_def parseFloat_default)
  have c: "\<exists>reqs. reqs \<noteq> [] \<and> requests (tts_main env w) = requests w @ reqs
           \<and> (\<forall>p \<in> set reqs. speed p = Some (tts_SPEED env))"
  proof -
    have "0 < length ?str" using assms(6) by simp
    then have pos: "0 < length ?chunks"
      by (simp add: length_chunk_loop div_greater_zero_iff Suc_le_eq)
    from tts_main_requests [OF v] obtain k where k: "0 < k"
      "requests (tts_main env w) = requests w @ map (tts_params env) (take k ?chunks)"
      by blast
    let ?reqs = "map (tts_params env) (take k ?chunks)"
    have "?reqs \<noteq> []" using k(1) pos by auto
    moreover have "\<forall>p \<in> set ?reqs. speed p = Some (tts_SPEED env)"
      using assms(7) by (auto simp: speed_of_params)
    ultimately show ?thesis using k(2) by blast
  qed
  have d: "exit_code (tts_main env w) = Some 0 \<and> stderr (tts_main env w) = stderr w
          \<and> requests (tts_main env w) = requests w @ map (tts_params env) ?chunks"
    if ok: "\<forall>j < length ?chunks. \<exists>r. speech_create env j (tts_params env (?chunks ! j)) = Inr r"
  proof -
    define rs where "rs = map (\<lambda>j. case speech_create env j (tts_params env (?chunks ! j)) of
        Inr r \<Rightarrow> r | Inl e \<Rightarrow> []) [0..<length ?chunks]"
    have n: "length rs = length ?chunks" by (simp add: rs_def)
    have "\<forall>j < length rs. speech_create env j (tts_params env (?chunks ! j)) = Inr (rs ! j)"
    proof (intro allI impI)
      fix j assume "j < length rs"
      then have j: "j < length ?chunks" by (simp add: n)
      with ok obtain r where "speech_create env j (tts_params env (?chunks ! j)) = Inr r" by blast
      then show "speech_create env j (tts_params env (?chunks ! j)) = Inr (rs ! j)"
        using j by (simp add: rs_def)
    qed
    from tts_main_ok [OF v n this] show ?thesis by simp
  qed
  from a b c d parseFloat_NaN [of s] show ?thesis by blast
qed

lemma example_tts_inputs:
  "truthy (process_env (example_tts_env (vars(js ''OPENAI_API_KEY'' \<mapsto> js ''key'')) provider)
     (js ''OPENAI_API_KEY''))"
  "argv_at (example_tts_env vars' provider) 2 = Some (js ''/in.txt'')"
  "js ''/in.txt'' \<noteq> []"
  "truthy (argv_at (example_tts_env vars' provider) 3)"
  "the (argv_at (example_tts_env vars' provider) 3) = js ''/out.wav''"
  "files (example_world content :: speech_params world)
     (resolve (example_tts_env vars' provider) (js ''/in.txt'')) = Some content"
  "resolve (example_tts_env vars' provider) p = p"
  "utf8 (example_tts_env vars' provider) (map of_char ''Hello world.'') = js ''Hello world.''"
  "trim (js ''Hello world.'') = js ''Hello world.''"
  "js ''Hello world.'' \<noteq> []"
  by (simp_all add: example_tts_env_def example_world_def example_argv_def argv_at_def
      truthy_def js_def trim_def is_white_space_def)

lemma example_model_default:
  "tts_MODEL (example_tts_env [js ''TTS_SPEED'' \<mapsto> s, js ''OPENAI_API_KEY'' \<mapsto> js ''key''] provider)
     = js ''tts-1-hd''"
  by (simp add: tts_MODEL_def example_tts_env_def or_else_def js_def)

lemma example_speed_run:
  fixes s :: jsstring
  defines "env \<equiv> example_tts_env [js ''TTS_SPEED'' \<mapsto> s, js ''OPENAI_API_KEY'' \<mapsto> js ''key'']
                (\<lambda>i p. Inr example_header)"
  defines "w \<equiv> example_world (map of_char ''Hello world.'') :: speech_params world"
  shows "truthy (process_env env (js ''OPENAI_API_KEY''))"
    and "argv_at env 2 = Some (js ''/in.txt'')" and "js ''/in.txt'' \<noteq> []"
    and "truthy (argv_at env 3)"
    and "files w (resolve env (js ''/in.txt'')) = Some (map of_char ''Hello world.'')"
    and "trim (utf8 env (map of_char ''Hello world.'')) \<noteq> []"
    and "tts_MODEL env \<noteq> js ''gpt-4o-mini-tts''"
    and "process_env env (js ''TTS_SPEED'') = Some s"
    and "requests w = []" and "stderr w = []"
    and "\<forall>j < length (chunk_loop (trim (utf8 env (map of_char ''Hello world.''))) 0 []).
          \<exists>r. speech_create env j
            (tts_params env (chunk_loop (trim (utf8 env (map of_char ''Hello world.''))) 0 [] ! j))
              = Inr r"
proof -
  show "truthy (process_env env (js ''OPENAI_API_KEY''))"
    unfolding env_def by (rule example_tts_inputs)
  show "argv_at env 2 = Some (js ''/in.txt'')" "js ''/in.txt'' \<noteq> []" "truthy (argv_at env 3)"
    "files w (resolve env (js ''/in.txt'')) = Some (map of_char ''Hello world.'')"
    unfolding env_def w_def by (rule example_tts_inputs)+
  show "trim (utf8 env (map of_char ''Hello world.'')) \<noteq> []"
    unfolding env_def by (simp only: example_tts_inputs not_False_eq_True)
  show "tts_MODEL env \<noteq> js ''gpt-4o-mini-tts''"
    unfolding env_def by (simp only: example_model_default) (simp add: js_def)
  show "process_env env (js ''TTS_SPEED'') = Some s"
    unfolding env_def by (simp add: example_tts_env_def js_def)
  show "requests w = []" "stderr w = []"
    unfolding w_def by (simp_all add: example_world_def)
  show "\<forall>j < length (chunk_loop (trim (utf8 env (map of_char ''Hello world.''))) 0 []).
          \<exists>r. speech_create env j
            (tts_params env (chunk_loop (trim (utf8 env (map of_char ''Hello world.''))) 0 [] ! j))
              = Inr r"
    unfolding env_def by (simp add: example_tts_env_def)
qed

theorem speed_not_validated_witness:
  "map speed (requests (tts_main
      (example_tts_env [js ''TTS_SPEED'' \<mapsto> js ''5'', js ''OPENAI_API_KEY'' \<mapsto> js ''key'']
         (\<lambda>i p. Inr example_header))
      (example_world (map of_char ''Hello world.'')))) = [Some (Finite 5)]
   \<and> map speed (requests (tts_main
      (example_tts_env [js ''TTS_SPEED'' \<mapsto> js ''fast'', js ''OPENAI_API_KEY'' \<mapsto> js ''key'']
         (\<lambda>i p. Inr example_header))
      (example_world (map of_char ''Hello world.'')))) = [Some NaN]
   \<and> exit_code (tts_main
      (example_tts_env [js ''TTS_SPEED'' \<mapsto> js ''fast'', js ''OPENAI_API_KEY'' \<mapsto> js ''key'']
         (\<lambda>i p. Inr example_header))
      (example_world (map of_char ''Hello world.''))) = Some 0
   \<and> map speed (requests (tts_main
      (example_tts_env [js ''TTS_SPEED'' \<mapsto> js ''1e400'', js ''OPENAI_API_KEY'' \<mapsto> js ''key'']
         (\<lambda>i p. Inr example_header))
      (example_world (map of_char ''Hello world.'')))) = [Some (Infinity False)]
   \<and> stderr (tts_main
      (example_tts_env [js ''TTS_SPEED'' \<mapsto> js ''1e400'', js ''OPENAI_API_KEY'' \<mapsto> js ''key'']
         (\<lambda>i p. Inr example_header))
      (example_world (map of_char ''Hello world.''))) = []"
proof -
  let ?w = "example_world (map of_char ''Hello world.'') :: speech_params world"
  have c: "chunk_loop (trim (utf8 (example_tts_env vars provider) (map of_char ''Hello world.''))) 0 []
      = [js ''Hello world.'']" for vars provider
    by (simp only: example_tts_inputs) (rule chunk_loop_short, simp_all add: js_def)
  have f: "case dropWhile is_white_space (js ''fast'') of [] \<Rightarrow> True
         | c # r \<Rightarrow> \<not> is_digit c \<and> c \<notin> set (js ''+-.I'')"
    by (simp add: js_def is_white_space_def is_digit_def)
  have ne: "js ''5'' \<noteq> []" "js ''fast'' \<noteq> []" "js ''1e400'' \<noteq> []"
    by (simp_all add: js_def)
  let ?e = "\<lambda>s. example_tts_env [js ''TTS_SPEED'' \<mapsto> s, js ''OPENAI_API_KEY'' \<mapsto> js ''key'']
         (\<lambda>i p. Inr example_header)"
  have single: "map g [x] = [g x]" for g :: "jsstring \<Rightarrow> speech_params" and x
    by simp
  have run: "map speed (requests (tts_main (?e s) ?w)) = [Some (parseFloat s)]
      \<and> exit_code (tts_main (?e s) ?w) = Some 0 \<and> stderr (tts_main (?e s) ?w) = []"
    if "s \<noteq> []" for s
  proof -
    note T = speed_not_validated [where env = "?e s" and w = ?w and s = s
      and inFile = "js ''/in.txt''" and content = "map of_char ''Hello world.''",
      OF example_speed_run(1-7)]
    from T example_speed_run(8) [of s] that have sp: "tts_SPEED (?e s) = parseFloat s"
      by blast
    from T example_speed_run(11) [of s]
    have "exit_code (tts_main (?e s) ?w) = Some 0 \<and> stderr (tts_main (?e s) ?w) = stderr ?w
      \<and> requests (tts_main (?e s) ?w) = requests ?w @ map (tts_params (?e s))
          (chunk_loop (trim (utf8 (?e s) (map of_char ''Hello world.''))) 0 [])"
      by blast
    then have "exit_code (tts_main (?e s) ?w) = Some 0 \<and> stderr (tts_main (?e s) ?w) = []
      \<and> requests (tts_main (?e s) ?w) = [tts_params (?e s) (js ''Hello world.'')]"
      by (simp only: c example_speed_run(9,10) append_Nil single)
    then show ?thesis
      by (simp add: speed_of_params [OF example_speed_run(7)] sp)
  qed
  have nan: "parseFloat (js ''fast'') = NaN"
    using speed_not_validated [where env = "?e (js ''fast'')" and w = ?w and s = "js ''fast''"
      and inFile = "js ''/in.txt''" and content = "map of_char ''Hello world.''",
      OF example_speed_run(1-7)] f
    by blast
  show ?thesis
    using run [OF ne(1)] run [OF ne(2)] run [OF ne(3)]
    by (simp only: parseFloat_five parseFloat_huge nan simp_thms)
qed

text \<open>
  C10 as stated fails for the empty string: it does not parse to a number, but the
  program does not parse it; the request carries the speed 1.
\<close>

theorem speed_empty_counterexample:
  "process_env (example_tts_env [js ''TTS_SPEED'' \<mapsto> [], js ''OPENAI_API_KEY'' \<mapsto> js ''key'']
                  (\<lambda>i p. Inr example_header)) (js ''TTS_SPEED'') = Some []
   \<and> parseFloat [] = NaN
   \<and> map speed (requests (tts_main
          (example_tts_env [js ''TTS_SPEED'' \<mapsto> [], js ''OPENAI_API_KEY'' \<mapsto> js ''key'']
                (\<lambda>i p. Inr example_header))
          (example_world (map of_char ''Hello world.'')))) = [Some (Finite 1)]"
proof -
  let ?env = "example_tts_env [js ''TTS_SPEED'' \<mapsto> [], js ''OPENAI_API_KEY'' \<mapsto> js ''key'']
                (\<lambda>i p. Inr example_header)"
  let ?w = "example_world (map of_char ''Hello world.'') :: speech_params world"
  have e: "process_env ?env (js ''TTS_SPEED'') = Some []"
    by (rule example_speed_run(8))
  have v: "tts_validate ?env ?w = Inr (js ''/out.wav'', js ''Hello world.'')"
    using tts_validate_passes [where env = ?env and w = ?w, OF example_speed_run(1-6)]
    by (simp only: example_tts_inputs)
  have c: "chunk_loop (js ''Hello world.'') 0 [] = [js ''Hello world.'']"
    by (rule chunk_loop_short) (simp_all add: js_def)
  have m: "tts_MODEL ?env \<noteq> js ''gpt-4o-mini-tts''"
    by (rule example_speed_run(7))
  have sp: "tts_SPEED ?env = Finite 1"
    using e by (simp add: tts_SPEED_def or_else_def parseFloat_default)
  have n: "length [example_header] = length (chunk_loop (js ''Hello world.'') 0 [])"
    by (simp add: c)
  have ok: "\<forall>j < length [example_header].
      speech_create ?env j (tts_params ?env (chunk_loop (js ''Hello world.'') 0 [] ! j))
        = Inr ([example_header] ! j)"
    by (simp add: example_tts_env_def)
  have "requests (tts_main ?env ?w) = [tts_params ?env (js ''Hello world.'')]"
    using tts_main_ok [OF v n ok] by (simp add: c example_world_def)
  then have "map speed (requests (tts_main ?env ?w)) = [Some (Finite 1)]"
    by (simp add: speed_of_params [OF m] sp)
  moreover have "parseFloat [] = NaN"
    by (rule parseFloat_NaN) simp
  ultimately show ?thesis using e by simp
qed

section \<open>The container written by src/tts-gemini.js\<close>

lemma Buffer_alloc_44:
  "Buffer_alloc 44 = [0, 0, 0, 0, 0, 0, 0, 0, 0, 0, 0, 0, 0, 0, 0, 0, 0, 0, 0, 0, 0, 0,
                      0, 0, 0, 0, 0, 0, 0, 0, 0, 0, 0, 0, 0, 0, 0, 0, 0, 0, 0, 0, 0, 0]"
  by (simp add: Buffer_alloc_def numeral_eq_Suc)

lemma saveWav_writes:
  assumes "36 + length pcm < 2 ^ 32"
  shows "saveWav env filename pcm 24000 w =
     writeFileSync env filename
       ([0x52, 0x49, 0x46, 0x46,
         of_nat (36 + length pcm), of_nat ((36 + length pcm) div 2 ^ 8),
         of_nat ((36 + length pcm) div 2 ^ 16), of_nat ((36 + length pcm) div 2 ^ 24),
         0x57, 0x41, 0x56, 0x45, 0x66, 0x6D, 0x74, 0x20, 16, 0, 0, 0, 1, 0, 1, 0,
         0xC0, 0x5D, 0, 0, 0x80, 0xBB, 0, 0, 2, 0, 16, 0, 0x64, 0x61, 0x74, 0x61,
         of_nat (length pcm), of_nat (length pcm div 2 ^ 8),
         of_nat (length pcm div 2 ^ 16), of_nat (length pcm div 2 ^ 24)] @ pcm) w"
proof -
  from assms have d: "length pcm < 2 ^ 32" by simp
  have r: "(24000 :: byte) = 0xC0" "(48000 :: byte) = 0x80" by simp_all
  show ?thesis
    using assms d
    by (simp add: saveWav_def Let_def then_do_def buffer_write_def writeUInt32LE_def
        writeUInt16LE_def buffer_put_def Buffer_alloc_44 Buffer_concat_def r)
qed

lemma le32_decompose:
  fixes v :: nat
  shows "v mod 256 + 256 * (v div 256 mod 256) + 65536 * (v div 65536 mod 256)
           + 16777216 * (v div 16777216) = v"
proof -
  define a where "a = v div 256"
  define b where "b = a div 256"
  define c where "c = b div 256"
  have b': "v div 65536 = b"
    by (simp add: a_def b_def div_mult2_eq [symmetric])
  have c': "v div 16777216 = c"
    by (simp add: a_def b_def c_def div_mult2_eq [symmetric])
  have 1: "v = v mod 256 + 256 * a" by (simp add: a_def)
  have 2: "a = a mod 256 + 256 * b" by (simp add: b_def)
  have 3: "b = b mod 256 + 256 * c" by (simp add: c_def)
  have "v mod 256 + 256 * (a mod 256) + 65536 * (b mod 256) + 16777216 * c
      = v mod 256 + 256 * (a mod 256 + 256 * (b mod 256 + 256 * c))"
    by (simp add: algebra_simps)
  also have "\<dots> = v" using 1 2 3 by simp
  finally show ?thesis by (simp add: a_def [symmetric] b' c')
qed

lemma le32_read:
  assumes "v < 2 ^ 32"
  shows "unat (of_nat v :: byte) + 2 ^ 8 * unat (of_nat (v div 2 ^ 8) :: byte)
         + 2 ^ 16 * unat (of_nat (v div 2 ^ 16) :: byte)
         + 2 ^ 24 * unat (of_nat (v div 2 ^ 24) :: byte) = v"
proof -
  have "v div 16777216 < 256" using assms by simp
  then have "v div 16777216 mod 256 = v div 16777216" by simp
  then show ?thesis
    using le32_decompose [of v] by (simp add: unat_of_nat take_bit_eq_mod)
qed

lemma writeFileSync_fits:
  assumes "length out \<le> kIoMaxLength"
    and "case disk_free env of None \<Rightarrow> True | Some k \<Rightarrow> length out \<le> k"
  shows "writeFileSync env p out w = (None, w\<lparr>files := (files w)(p \<mapsto> out)\<rparr>)"
  using assms by (simp add: writeFileSync_def split: option.splits)

lemma MAX_PAYLOAD_value: "MAX_PAYLOAD = 402653166"
  by (simp add: MAX_PAYLOAD_def MAX_STRING_LENGTH_def)

text \<open>
  C4. The payload that the program passes to \<open>saveWav\<close> is decoded from one string, so
  it has at most \<open>MAX_PAYLOAD\<close> bytes. For every such payload of length \<open>D\<close>,
  \<open>saveWav\<close> hands exactly \<open>44 + D\<close> bytes to \<open>fs.writeFileSync\<close>, which are the
  output file when the volume takes them: the tags \<open>RIFF\<close>, \<open>WAVE\<close>, \<open>fmt \<close> and
  \<open>data\<close>, a RIFF size of \<open>36 + D\<close>, a format chunk of 16 bytes for PCM (format 1)
  with one channel, 24000 samples a second, 48000 bytes a second, blocks of 2 bytes and
  16 bits a sample, a data size of \<open>D\<close>, all numbers little-endian, and then the
  payload unchanged.
\<close>

theorem saveWav_container:
  assumes "length pcm \<le> MAX_PAYLOAD"
  shows "\<exists>out. saveWav env filename pcm 24000 w = writeFileSync env filename out w
    \<and> ((case disk_free env of None \<Rightarrow> True | Some k \<Rightarrow> 44 + length pcm \<le> k) \<longrightarrow>
         saveWav env filename pcm 24000 w = (None, w\<lparr>files := (files w)(filename \<mapsto> out)\<rparr>))
    \<and> length out = 44 + length pcm \<and> drop 44 out = pcm
    \<and> take 4 out = map of_char ''RIFF'' \<and> readUInt32LE out 4 = 36 + length pcm
    \<and> take 4 (drop 8 out) = map of_char ''WAVE''
    \<and> take 4 (drop 12 out) = map of_char ''fmt '' \<and> readUInt32LE out 16 = 16
    \<and> readUInt16LE out 20 = 1 \<and> readUInt16LE out 22 = 1
    \<and> readUInt32LE out 24 = 24000 \<and> readUInt32LE out 28 = 48000
    \<and> readUInt16LE out 32 = 2 \<and> readUInt16LE out 34 = 16
    \<and> take 4 (drop 36 out) = map of_char ''data'' \<and> readUInt32LE out 40 = length pcm"
proof -
  let ?out = "[0x52, 0x49, 0x46, 0x46,
         of_nat (36 + length pcm), of_nat ((36 + length pcm) div 2 ^ 8),
         of_nat ((36 + length pcm) div 2 ^ 16), of_nat ((36 + length pcm) div 2 ^ 24),
         0x57, 0x41, 0x56, 0x45, 0x66, 0x6D, 0x74, 0x20, 16, 0, 0, 0, 1, 0, 1, 0,
         0xC0, 0x5D, 0, 0, 0x80, 0xBB, 0, 0, 2, 0, 16, 0, 0x64, 0x61, 0x74, 0x61,
         of_nat (length pcm), of_nat (length pcm div 2 ^ 8),
         of_nat (length pcm div 2 ^ 16), of_nat (length pcm div 2 ^ 24)] @ pcm"
  from assms have d: "length pcm \<le> 402653166" by (simp only: MAX_PAYLOAD_value)
  then have r: "36 + length pcm < 2 ^ 32" by simp
  from d have d32: "length pcm < 2 ^ 32" by simp
  have len: "length ?out = 44 + length pcm" by simp
  have io: "length ?out \<le> kIoMaxLength"
    using d by (simp add: kIoMaxLength_def)
  have s: "saveWav env filename pcm 24000 w = writeFileSync env filename ?out w"
    by (rule saveWav_writes [OF r])
  have w: "saveWav env filename pcm 24000 w = (None, w\<lparr>files := (files w)(filename \<mapsto> ?out)\<rparr>)"
    if "case disk_free env of None \<Rightarrow> True | Some k \<Rightarrow> 44 + length pcm \<le> k"
  proof -
    from that have "case disk_free env of None \<Rightarrow> True | Some k \<Rightarrow> length ?out \<le> k"
      by (simp only: len)
    from writeFileSync_fits [OF io this] show ?thesis by (simp only: s)
  qed
  have riff: "readUInt32LE ?out 4 = 36 + length pcm"
    using le32_read [OF r] by (simp add: readUInt32LE_def)
  have data: "readUInt32LE ?out 40 = length pcm"
    using le32_read [OF d32] by (simp add: readUInt32LE_def)
  have fixed: "drop 44 ?out = pcm" "take 4 ?out = map of_char ''RIFF''"
    "take 4 (drop 8 ?out) = map of_char ''WAVE''"
    "take 4 (drop 12 ?out) = map of_char ''fmt ''" "readUInt32LE ?out 16 = 16"
    "readUInt16LE ?out 20 = 1" "readUInt16LE ?out 22 = 1"
    "readUInt32LE ?out 24 = 24000" "readUInt32LE ?out 28 = 48000"
    "readUInt16LE ?out 32 = 2" "readUInt16LE ?out 34 = 16"
    "take 4 (drop 36 ?out) = map of_char ''data''"
    by (simp_all add: readUInt32LE_def readUInt16LE_def)
  from s w len riff data fixed show ?thesis
    by (intro exI [of _ ?out] conjI impI)
qed

theorem saveWav_container_witness:
  "\<exists>out. saveWav (example_gemini_env Map.empty (Inr None) None) (js ''/out.wav'') [1, 2, 3, 4] 24000
            (example_world [] :: gemini_request world)
          = (None, (example_world [])\<lparr>files := [js ''/in.txt'' \<mapsto> [], js ''/out.wav'' \<mapsto> out]\<rparr>)
      \<and> length out = 48 \<and> drop 44 out = [1, 2, 3, 4]
      \<and> readUInt32LE out 4 = 40 \<and> readUInt32LE out 40 = 4 \<and> readUInt32LE out 24 = 24000"
proof -
  have a: "length [1, 2, 3, 4 :: byte] \<le> MAX_PAYLOAD"
    by (simp add: MAX_PAYLOAD_value)
  have b: "case disk_free (example_gemini_env Map.empty (Inr None) None) of None \<Rightarrow> True
           | Some k \<Rightarrow> 44 + length [1, 2, 3, 4 :: byte] \<le> k"
    by (simp add: example_gemini_env_def)
  show ?thesis
    using saveWav_container [OF a, of "example_gemini_env Map.empty (Inr None) None"
        "js ''/out.wav''" "example_world []"] b
    by (auto simp: example_world_def)
qed

section \<open>Failures of the two programs\<close>

lemma gemini_main_no_audio:
  assumes "gemini_validate env w = Inr (absOut, rawText)"
    and "generateContent env (gemini_request env rawText) = Inr data"
    and "\<not> truthy data"
  shows "gemini_main env w =
     w\<lparr>stdout := stdout w @ [MSG_GENERATING (gemini_MODEL env) (gemini_VOICE env)],
       requests := requests w @ [gemini_request env rawText],
       stderr := stderr w @ [MSG_NO_AUDIO], exit_code := Some 1\<rparr>"
  using assms
  by (simp add: gemini_main_def Let_def process_exit_def console_error_def console_log_def)

text \<open>
  C7. In a run of \<open>src/tts-gemini.js\<close> that passes the checks, when the provider
  answers without the audio payload (the optional chain gives \<open>undefined\<close> or the
  empty string), the program prints the no-audio message on the error stream and exits
  with code 1 after its one request. It writes no file, and the message of the
  \<open>catch\<close> handler, which reports a rejected request, is not printed.
\<close>

theorem no_audio_returned:
  assumes "gemini_validate env w = Inr (absOut, rawText)"
    and "generateContent env (gemini_request env rawText) = Inr data"
    and "\<not> truthy data"
  shows "stderr (gemini_main env w) = stderr w @ [MSG_NO_AUDIO]
    \<and> exit_code (gemini_main env w) = Some 1
    \<and> files (gemini_main env w) = files w
    \<and> requests (gemini_main env w) = requests w @ [gemini_request env rawText]
    \<and> (\<forall>err. MSG_GENERATION_FAILED err \<notin> set (stderr (gemini_main env w)) - set (stderr w))"
  by (simp add: gemini_main_no_audio [OF assms])

lemma example_gemini_hello:
  "gemini_validate (example_gemini_env ((vars)(js ''GEMINI_API_KEY'' \<mapsto> js ''key'')) response space)
     (example_world (map of_char ''Hello world.''))
   = Inr (js ''/out.wav'', js ''Hello world.'')"
  by (simp add: gemini_validate_def example_gemini_env_def example_world_def example_argv_def
      argv_at_def truthy_def Let_def js_def trim_def is_white_space_def)

theorem no_audio_returned_witness:
  "stderr (gemini_main (example_gemini_env [js ''GEMINI_API_KEY'' \<mapsto> js ''key''] (Inr None) None)
      (example_world (map of_char ''Hello world.''))) = [MSG_NO_AUDIO]
   \<and> exit_code (gemini_main (example_gemini_env [js ''GEMINI_API_KEY'' \<mapsto> js ''key''] (Inr None) None)
      (example_world (map of_char ''Hello world.''))) = Some 1
   \<and> files (gemini_main (example_gemini_env [js ''GEMINI_API_KEY'' \<mapsto> js ''key''] (Inr None) None)
      (example_world (map of_char ''Hello world.''))) (js ''/out.wav'') = None"
proof -
  let ?env = "example_gemini_env [js ''GEMINI_API_KEY'' \<mapsto> js ''key''] (Inr None) None"
  let ?w = "example_world (map of_char ''Hello world.'') :: gemini_request world"
  have v: "gemini_validate ?env ?w = Inr (js ''/out.wav'', js ''Hello world.'')"
    by (rule example_gemini_hello)
  have g: "generateContent ?env (gemini_request ?env (js ''Hello world.'')) = Inr None"
    by (simp add: example_gemini_env_def)
  have t: "\<not> truthy None" by (simp add: truthy_def)
  show ?thesis
    using no_audio_returned [OF v g t] by (simp add: example_world_def js_def)
qed

text \<open>
  C6. When the credential and both arguments are there, the input file exists and its
  content trims to the empty string, each of the two programs prints the empty-input
  message on the error stream and exits with code 1. Nothing else changes: no request
  has been sent and no file written.
\<close>

theorem empty_input_fails_fast:
  "(truthy (process_env a (js ''OPENAI_API_KEY'')) \<and> argv_at a 2 = Some inFile \<and> inFile \<noteq> []
      \<and> truthy (argv_at a 3) \<and> files w (resolve a inFile) = Some content
      \<and> trim (utf8 a content) = []
    \<longrightarrow> tts_main a w = w\<lparr>stderr := stderr w @ [MSG_EMPTY], exit_code := Some 1\<rparr>
        \<and> requests (tts_main a w) = requests w)
   \<and> (truthy (process_env b (js ''GEMINI_API_KEY'')) \<and> argv_at b 2 = Some inFile' \<and> inFile' \<noteq> []
      \<and> truthy (argv_at b 3) \<and> files w' (resolve b inFile') = Some content'
      \<and> trim (utf8 b content') = []
    \<longrightarrow> gemini_main b w' = w'\<lparr>stderr := stderr w' @ [MSG_EMPTY], exit_code := Some 1\<rparr>
        \<and> requests (gemini_main b w') = requests w')"
  by (simp add: tts_main_def tts_validate_def gemini_main_def gemini_validate_def Let_def
      truthy_def process_exit_def console_error_def)

theorem empty_input_fails_fast_witness:
  "tts_main (example_tts_env [js ''OPENAI_API_KEY'' \<mapsto> js ''key''] (\<lambda>i p. Inr example_header))
      (example_world [0x20, 0x0A, 0x09, 0x20])
     = (example_world [0x20, 0x0A, 0x09, 0x20])\<lparr>stderr := [MSG_EMPTY], exit_code := Some 1\<rparr>
   \<and> requests (tts_main (example_tts_env [js ''OPENAI_API_KEY'' \<mapsto> js ''key'']
        (\<lambda>i p. Inr example_header)) (example_world [0x20, 0x0A, 0x09, 0x20])) = []
   \<and> gemini_main (example_gemini_env [js ''GEMINI_API_KEY'' \<mapsto> js ''key'']
        (Inr (Some (js ''AQIDBA==''))) None) (example_world [0x20, 0x0A, 0x09, 0x20])
     = (example_world [0x20, 0x0A, 0x09, 0x20])\<lparr>stderr := [MSG_EMPTY], exit_code := Some 1\<rparr>
   \<and> requests (gemini_main (example_gemini_env [js ''GEMINI_API_KEY'' \<mapsto> js ''key'']
        (Inr (Some (js ''AQIDBA==''))) None) (example_world [0x20, 0x0A, 0x09, 0x20])) = []"
proof -
  let ?a = "example_tts_env [js ''OPENAI_API_KEY'' \<mapsto> js ''key''] (\<lambda>i p. Inr example_header)"
  let ?b = "example_gemini_env [js ''GEMINI_API_KEY'' \<mapsto> js ''key'']
        (Inr (Some (js ''AQIDBA==''))) None"
  let ?c = "[0x20, 0x0A, 0x09, 0x20] :: buffer"
  have a: "truthy (process_env ?a (js ''OPENAI_API_KEY''))" "argv_at ?a 2 = Some (js ''/in.txt'')"
    "js ''/in.txt'' \<noteq> []" "truthy (argv_at ?a 3)"
    "files (example_world ?c :: speech_params world) (resolve ?a (js ''/in.txt'')) = Some ?c"
    "trim (utf8 ?a ?c) = []"
    by (simp_all add: example_tts_env_def example_world_def example_argv_def argv_at_def
        truthy_def js_def trim_def is_white_space_def)
  have b: "truthy (process_env ?b (js ''GEMINI_API_KEY''))" "argv_at ?b 2 = Some (js ''/in.txt'')"
    "truthy (argv_at ?b 3)"
    "files (example_world ?c :: gemini_request world) (resolve ?b (js ''/in.txt'')) = Some ?c"
    "trim (utf8 ?b ?c) = []"
    by (simp_all add: example_gemini_env_def example_world_def example_argv_def argv_at_def
        truthy_def js_def trim_def is_white_space_def)
  have w: "stderr (example_world ?c :: speech_params world) = []"
    "requests (example_world ?c :: speech_params world) = []"
    "stderr (example_world ?c :: gemini_request world) = []"
    "requests (example_world ?c :: gemini_request world) = []"
    by (simp_all add: example_world_def)
  show ?thesis
    using empty_input_fails_fast [of ?a "js ''/in.txt''" "example_world ?c" ?c ?b
        "js ''/in.txt''" "example_world ?c" ?c] a b w
    by simp
qed

text \<open>
  C8. Without its credential variable each of the two programs prints its message on
  the error stream and exits with code 1, and nothing else changes: no file is written
  and no request sent, whatever the arguments are. Every other variable, when absent,
  has its default.
\<close>

theorem missing_credential_fails_fast:
  "(process_env a (js ''OPENAI_API_KEY'') = None \<longrightarrow>
      tts_main a w = w\<lparr>stderr := stderr w @ [MSG_OPENAI_KEY_MISSING], exit_code := Some 1\<rparr>)
   \<and> (process_env b (js ''GEMINI_API_KEY'') = None \<longrightarrow>
      gemini_main b w' = w'\<lparr>stderr := stderr w' @ [MSG_GEMINI_KEY_MISSING], exit_code := Some 1\<rparr>)
   \<and> (process_env a (js ''TTS_MODEL'') = None \<longrightarrow> tts_MODEL a = js ''tts-1-hd'')
   \<and> (process_env a (js ''TTS_VOICE'') = None \<longrightarrow> tts_VOICE a = js ''fable'')
   \<and> (process_env a (js ''TTS_SPEED'') = None \<longrightarrow> tts_SPEED a = Finite 1)
   \<and> (process_env a (js ''TTS_INSTR'') = None \<longrightarrow>
        tts_INSTR a = js ''Calm, slightly dramatic storyteller.'')
   \<and> (process_env b (js ''GEMINI_TTS_MODEL'') = None \<longrightarrow>
        gemini_MODEL b = js ''gemini-2.5-flash-preview-tts'')
   \<and> (process_env b (js ''GEMINI_VOICE'') = None \<longrightarrow> gemini_VOICE b = js ''Iapetus'')
   \<and> (process_env b (js ''GEMINI_STYLE'') = None \<longrightarrow>
        gemini_STYLE b =
          js ''Neutral storyteller with a mild British accent and a very slight dramatic tone'')"
  by (simp add: tts_main_def tts_validate_def gemini_main_def gemini_validate_def Let_def
      truthy_def process_exit_def console_error_def tts_MODEL_def tts_VOICE_def tts_SPEED_def
      tts_INSTR_def gemini_MODEL_def gemini_VOICE_def gemini_STYLE_def or_else_def
      parseFloat_default)

theorem missing_credential_fails_fast_witness:
  "tts_main (example_tts_env Map.empty (\<lambda>i p. Inr example_header))
      (example_world (map of_char ''Hello world.''))
     = (example_world (map of_char ''Hello world.''))
         \<lparr>stderr := [MSG_OPENAI_KEY_MISSING], exit_code := Some 1\<rparr>
   \<and> gemini_main (example_gemini_env Map.empty (Inr (Some (js ''AQIDBA==''))) None)
      (example_world (map of_char ''Hello world.''))
     = (example_world (map of_char ''Hello world.''))
         \<lparr>stderr := [MSG_GEMINI_KEY_MISSING], exit_code := Some 1\<rparr>
   \<and> tts_SPEED (example_tts_env Map.empty (\<lambda>i p. Inr example_header)) = Finite 1
   \<and> gemini_VOICE (example_gemini_env Map.empty (Inr (Some (js ''AQIDBA==''))) None)
       = js ''Iapetus''"
proof -
  let ?a = "example_tts_env Map.empty (\<lambda>i p. Inr example_header)"
  let ?b = "example_gemini_env Map.empty (Inr (Some (js ''AQIDBA==''))) None"
  have e: "process_env ?a = Map.empty" "process_env ?b = Map.empty"
    by (simp_all add: example_tts_env_def example_gemini_env_def)
  have w: "stderr (example_world (map of_char ''Hello world.'') :: speech_params world) = []"
    "stderr (example_world (map of_char ''Hello world.'') :: gemini_request world) = []"
    by (simp_all add: example_world_def)
  show ?thesis
    using missing_credential_fails_fast [of ?a "example_world (map of_char ''Hello world.'')" ?b
        "example_world (map of_char ''Hello world.'')"] e w
    by simp
qed

text \<open>
  C3. A failed run is to leave no partial output file. \<open>src/tts-gemini.js\<close> does
  not keep to it: its \<open>catch\<close> handler (lines 112 to 115) prints and exits and, unlike
  the \<open>catch\<close> block of \<open>src/tts.js\<close> (lines 95 to 98), unlinks nothing. In the run
  below the response carries four bytes of audio and the volume has room for 10 bytes:
  \<open>fs.writeFileSync\<close> fails, the run ends with code 1, and the first 10 bytes of the
  48-byte container are left at the output path.
\<close>

theorem gemini_failed_write_keeps_partial_file:
  "exit_code (gemini_main
      (example_gemini_env [js ''GEMINI_API_KEY'' \<mapsto> js ''key''] (Inr (Some (js ''AQIDBA==''))) (Some 10))
      (example_world (map of_char ''Hello world.''))) = Some 1
   \<and> stderr (gemini_main
      (example_gemini_env [js ''GEMINI_API_KEY'' \<mapsto> js ''key''] (Inr (Some (js ''AQIDBA==''))) (Some 10))
      (example_world (map of_char ''Hello world.''))) = [MSG_GENERATION_FAILED ENOSPC]
   \<and> files (gemini_main
      (example_gemini_env [js ''GEMINI_API_KEY'' \<mapsto> js ''key''] (Inr (Some (js ''AQIDBA==''))) (Some 10))
      (example_world (map of_char ''Hello world.''))) (js ''/out.wav'')
     = Some [0x52, 0x49, 0x46, 0x46, 40, 0, 0, 0, 0x57, 0x41]"
proof -
  let ?b = "example_gemini_env [js ''GEMINI_API_KEY'' \<mapsto> js ''key'']
      (Inr (Some (js ''AQIDBA==''))) (Some 10)"
  let ?w = "example_world (map of_char ''Hello world.'') :: gemini_request world"
  have v: "gemini_validate ?b ?w = Inr (js ''/out.wav'', js ''Hello world.'')"
    by (rule example_gemini_hello)
  have g: "generateContent ?b (gemini_request ?b (js ''Hello world.'')) = Inr (Some (js ''AQIDBA==''))"
    "truthy (Some (js ''AQIDBA==''))" "base64 ?b (js ''AQIDBA=='') = [1, 2, 3, 4]"
    "disk_free ?b = Some 10"
    by (simp_all add: example_gemini_env_def example_base64_def truthy_def js_def)
  have s: "36 + length [1, 2, 3, 4 :: byte] < 2 ^ 32" by simp
  show ?thesis
    by (simp only: gemini_main_def v)
      (simp add: g Let_def saveWav_writes [OF s] writeFileSync_def kIoMaxLength_def
        process_exit_def console_error_def console_log_def example_world_def)
qed

end
